theory Spec2Isabelle
  imports Main
begin

section \<open>Machine integers\<close>

text \<open>
  Go's \<open>int\<close> is a 64-bit two's complement integer on the platforms the server runs
  on. Lines, columns and lengths are modelled as \<open>int\<close>, and every addition and
  subtraction of the source is wrapped by \<open>int64\<close>, which is the identity exactly on
  the representable range.
\<close>

definition int64 :: "int \<Rightarrow> int" where
  "int64 x = (x + 2 ^ 63) mod 2 ^ 64 - 2 ^ 63"

definition is_int64 :: "int \<Rightarrow> bool" where
  "is_int64 x \<longleftrightarrow> - (2 ^ 63) \<le> x \<and> x < 2 ^ 63"

text \<open>\<open>len\<close> of a Go string: the number of its bytes.\<close>

definition len :: "string \<Rightarrow> int" where
  "len s = int (length s)"

section \<open>The syntax tree consumed from the parser package\<close>

text \<open>
  Modelled from the spec: the node and token types of the packages \<open>parser\<close> and
  \<open>token\<close> of \<open>github.com/z-sk1/ayla-lang\<close>, which the sources import but do not
  contain. The server only reads the tree; the types below list the node shapes
  (the statement and expression kinds of the spec's sections 4.2 to 4.4) with the
  fields that \<open>server.go\<close> and \<open>symbol.go\<close> read, under the names used there.
  Conventions:
  \<^item> a value of a Go interface type (\<open>parser.Expression\<close>, \<open>parser.Statement\<close>,
    \<open>parser.TypeNode\<close>) is a datatype whose first constructor is the nil interface
    value;
  \<^item> a pointer to a struct (\<open>*parser.Identifier\<close>) or a slice that the source compares
    with nil somewhere is an \<open>option\<close>, \<open>None\<close> being nil; a pointer that the source
    dereferences everywhere without a test is taken to be present;
  \<^item> node kinds that no type switch of the server mentions are collapsed into one
    constructor (\<open>OtherExpression\<close>, \<open>OtherStatement\<close>, \<open>OtherType\<close>);
  \<^item> a collection the source ranges over (arguments, fields of a struct literal,
    bodies) is the list of its elements in the order of the iteration;
  \<^item> the fields \<open>Name\<close>, \<open>Names\<close>, \<open>TypeName\<close> and \<open>Field\<close> hold identifiers: the
    builder stores the names of declarations as \<open>Symbol.Ident\<close> and the inferencer
    reads \<open>TypeName.Value\<close>; the names of calls, assignments and member accesses
    are taken to be identifiers as well.
\<close>

record Token =
  Line :: int
  Column :: int
  Literal :: string

text \<open>\<open>parser.Identifier\<close>: its \<open>NodeBase\<close> (which carries the token) and \<open>Value\<close>.\<close>

record Identifier =
  NodeBase :: Token
  Value :: string

text \<open>A field of a struct type; the source tests both the field pointer and its name for nil.\<close>

datatype StructField = StructField (FieldName: "Identifier option")

datatype TypeNode =
    NilType
  | IdentType Token string
  | ArrayType TypeNode
  | StructType "StructField option list"
  | OtherType

datatype Expression =
    NilExpr
  | IdentifierExpr Identifier
  | IntLiteral Token
  | FloatLiteral Token
  | StringLiteral Token
  | BoolLiteral Token
  | ArrayLiteral "Expression list"
  | AnonymousStructLiteral
  | StructLiteral Identifier "Expression list"
  | InfixExpression Expression string Expression
  | PrefixExpression string Expression
  | IndexExpression Expression Expression
  | MemberExpression Expression Identifier
  | FuncCall Identifier "Expression list"
  | OtherExpression

text \<open>A function parameter: \<open>p.Name\<close> and \<open>p.Type\<close>.\<close>

datatype Param = Param (ParamName: Identifier) (ParamType: TypeNode)

datatype Statement =
    NilStmt
  | ExpressionStatement Expression
  | TypeStatement Token "Identifier option" TypeNode
  | VarStatement "Identifier option" TypeNode Expression
  | VarStatementNoKeyword "Identifier option" Expression
  | ConstStatement "Identifier option" TypeNode Expression
  | MultiVarStatement "Identifier list option" TypeNode Expression
  | MultiVarStatementNoKeyword "Identifier list option" Expression
  | MultiConstStatement "Identifier list option" TypeNode Expression
  | AssignmentStatement Identifier Expression
  | MultiAssignmentStatement "Identifier list" Expression
  | IndexAssignmentStatement Expression Expression Expression
  | FuncStatement "Identifier option" "Param list" "Statement list"
  | SpawnStatement "Statement list"
  | IfStatement Expression "Statement list" "Statement list option"
  | ForStatement Statement Expression Statement "Statement list"
  | WhileStatement Expression "Statement list"
  | OtherStatement

section \<open>Symbols and scopes (symbol.go)\<close>

datatype SymbolKind = SymVar | SymConst | SymFunc | SymParam | SymType | SymUserType | SymStructField

text \<open>
  \<open>Symbol.Parent\<close> is never written or read by the source and is left out. The
  initializer field \<open>Value\<close> of the source is \<open>Value_s\<close> here (\<open>Value\<close> is the
  identifier's field).
\<close>

record Symbol =
  Kind :: SymbolKind
  Name :: string
  Ident :: "Identifier option"
  Type :: TypeNode
  Value_s :: Expression

text \<open>
  Scopes are heap objects linked by \<open>Parent\<close> pointers, and a scope is mutated after
  its children were created, so the model keeps an explicit store: \<open>cells\<close> maps an
  address to the scope stored there and \<open>used\<close> is the next free address. A \<open>*Scope\<close> is
  an address, or \<open>None\<close> for nil.
\<close>

record Scope =
  Parent :: "nat option"
  Symbols :: "string \<rightharpoonup> Symbol"

record Heap =
  cells :: "nat \<Rightarrow> Scope"
  used :: nat

definition empty_heap :: Heap where
  "empty_heap = \<lparr>cells = (\<lambda>_. \<lparr>Parent = None, Symbols = Map.empty\<rparr>), used = 0\<rparr>"

text \<open>The values a panic can carry, and the runtime fault of dereferencing nil.\<close>

datatype fault =
    Redeclaration string
  | NilName string
  | UnknownTypeStatement
  | NilDereference

definition NewScope :: "Heap \<Rightarrow> nat option \<Rightarrow> Heap \<times> nat" where
  "NewScope h parent =
     (h\<lparr>cells := (cells h)(used h := \<lparr>Parent = parent, Symbols = Map.empty\<rparr>),
        used := Suc (used h)\<rparr>, used h)"

definition Define :: "Heap \<Rightarrow> nat \<Rightarrow> Symbol \<Rightarrow> fault + Heap" where
  "Define h s symb =
     (if Name symb \<in> dom (Symbols (cells h s)) then Inl (Redeclaration (Name symb))
      else Inr (h\<lparr>cells := (cells h)
               (s := (cells h s)\<lparr>Symbols := (Symbols (cells h s))(Name symb \<mapsto> symb)\<rparr>)\<rparr>))"

text \<open>
  \<open>Resolve\<close> follows parent pointers until it finds the name or reaches nil. On a
  cyclic store the loop would not return; the result \<open>None\<close> of the outer option
  stands for that.
\<close>

partial_function (option) Resolve :: "Heap \<Rightarrow> nat option \<Rightarrow> string \<Rightarrow> Symbol option option" where
  "Resolve h scope name =
     (case scope of
        None \<Rightarrow> Some None
      | Some a \<Rightarrow>
          (case Symbols (cells h a) name of
             Some symb \<Rightarrow> Some (Some symb)
           | None \<Rightarrow> Resolve h (Parent (cells h a)) name))"

declare Resolve.simps [code]

section \<open>Type inference (server.go)\<close>

fun sameTypeNode :: "TypeNode \<Rightarrow> TypeNode \<Rightarrow> bool" where
  "sameTypeNode (IdentType _ na) b = (case b of IdentType _ nb \<Rightarrow> na = nb | _ \<Rightarrow> False)"
| "sameTypeNode (ArrayType ea) b = (case b of ArrayType eb \<Rightarrow> sameTypeNode ea eb | _ \<Rightarrow> False)"
| "sameTypeNode _ _ = False"

fun isIdent :: "TypeNode \<Rightarrow> string \<Rightarrow> bool" where
  "isIdent (IdentType _ n) name = (n = name)"
| "isIdent _ _ = False"

text \<open>The zero token of a node built by the server itself (\<open>&parser.IdentType{Name: ...}\<close>).\<close>

definition zeroToken :: Token where
  "zeroToken = \<lparr>Line = 0, Column = 0, Literal = []\<rparr>"

text \<open>
  \<open>inferExprType\<close> takes the scope only to resolve identifiers; the model takes the
  resolver \<open>rs\<close> (the symbol \<open>scope.Resolve\<close> finds for a name, if any). The result
  \<open>NilType\<close> is the nil type node, the spec's "unknown". \<open>elemsMatch\<close> is the loop over
  \<open>e.Elements[1:]\<close>.
\<close>

fun inferExprType :: "(string \<Rightarrow> Symbol option) \<Rightarrow> Expression \<Rightarrow> TypeNode"
  and elemsMatch :: "(string \<Rightarrow> Symbol option) \<Rightarrow> TypeNode \<Rightarrow> Expression list \<Rightarrow> bool" where
  "inferExprType rs (IntLiteral _) = IdentType zeroToken ''int''"
| "inferExprType rs (FloatLiteral _) = IdentType zeroToken ''float''"
| "inferExprType rs (StringLiteral _) = IdentType zeroToken ''string''"
| "inferExprType rs (BoolLiteral _) = IdentType zeroToken ''bool''"
| "inferExprType rs (ArrayLiteral []) = NilType"
| "inferExprType rs (ArrayLiteral (e0 # es)) =
     (let elemType = inferExprType rs e0 in
      if elemType = NilType then NilType
      else if elemsMatch rs elemType es then ArrayType elemType
      else NilType)"
| "inferExprType rs AnonymousStructLiteral = IdentType zeroToken ''struct''"
| "inferExprType rs (StructLiteral tn _) = IdentType zeroToken (Value tn)"
| "inferExprType rs (InfixExpression l _ r) =
     (let left = inferExprType rs l; right = inferExprType rs r in
      if left = NilType \<or> right = NilType then NilType
      else if sameTypeNode left right then left
      else if isIdent left ''int'' \<and> isIdent right ''float''
            \<or> isIdent left ''float'' \<and> isIdent right ''int''
           then IdentType zeroToken ''float''
      else NilType)"
| "inferExprType rs (PrefixExpression _ r) = inferExprType rs r"
| "inferExprType rs (IdentifierExpr i) =
     (case rs (Value i) of None \<Rightarrow> NilType | Some symb \<Rightarrow> Type symb)"
| "inferExprType rs _ = NilType"
| "elemsMatch rs elemType [] = True"
| "elemsMatch rs elemType (el # els) =
     (let t = inferExprType rs el in
      if t = NilType \<or> \<not> sameTypeNode elemType t then False
      else elemsMatch rs elemType els)"

section \<open>The symbol builder (symbol.go)\<close>

text \<open>
  A panic leaves the mutations made so far in place, so the loop body and the loop
  return the store together with the panic value, if any: \<open>(Some e, h)\<close> is a panic
  \<open>e\<close> raised in store \<open>h\<close>, \<open>(None, h)\<close> is normal completion.
\<close>

type_synonym build = "fault option \<times> Heap"

definition define1 :: "Heap \<Rightarrow> nat \<Rightarrow> Symbol \<Rightarrow> build" where
  "define1 h s symb = (case Define h s symb of Inl e \<Rightarrow> (Some e, h) | Inr h' \<Rightarrow> (None, h'))"

text \<open>The loops \<open>for _, name := range s.Names\<close>; \<open>mk\<close> builds the symbol of a name.\<close>

fun defineNames :: "Heap \<Rightarrow> nat \<Rightarrow> (Identifier \<Rightarrow> Symbol) \<Rightarrow> Identifier list \<Rightarrow> build" where
  "defineNames h s mk [] = (None, h)"
| "defineNames h s mk (name # names) =
     (case Define h s (mk name) of
        Inl e \<Rightarrow> (Some e, h)
      | Inr h' \<Rightarrow> defineNames h' s mk names)"

text \<open>The loop over \<open>s.Params\<close>, which defines into the function's scope.\<close>

fun defineParams :: "Heap \<Rightarrow> nat \<Rightarrow> Param list \<Rightarrow> build" where
  "defineParams h fnScope [] = (None, h)"
| "defineParams h fnScope (p # ps) =
     (case Define h fnScope
             \<lparr>Kind = SymParam, Name = Value (ParamName p), Ident = Some (ParamName p),
              Type = ParamType p, Value_s = NilExpr\<rparr> of
        Inl e \<Rightarrow> (Some e, h)
      | Inr h' \<Rightarrow> defineParams h' fnScope ps)"

text \<open>
  The field names of a struct type as \<open>buildInScope\<close> concatenates them:
  \<open>field.Name.Value\<close> is read without a test, so a nil field or a nil name is a
  runtime panic.
\<close>

fun fieldNames :: "StructField option list \<Rightarrow> fault + string" where
  "fieldNames [] = Inr []"
| "fieldNames (None # fs) = Inl NilDereference"
| "fieldNames (Some (StructField None) # fs) = Inl NilDereference"
| "fieldNames (Some (StructField (Some n)) # fs) =
     (case fieldNames fs of Inl e \<Rightarrow> Inl e | Inr r \<Rightarrow> Inr (Value n @ [CHR 0x0A] @ r))"

definition structName :: "string \<Rightarrow> string" where
  "structName fns = ''struct {'' @ [CHR 0x0A] @ fns @ ''}''"

fun typeName :: "TypeNode \<Rightarrow> fault + string" where
  "typeName (IdentType _ n) = Inr n"
| "typeName (StructType flds) =
     (case fieldNames flds of Inl e \<Rightarrow> Inl e | Inr fns \<Rightarrow> Inr (structName fns))"
| "typeName _ = Inl UnknownTypeStatement"

text \<open>
  \<open>buildStmt\<close> is one iteration of the loop of \<open>buildInScope\<close>, \<open>buildLoop\<close> the
  loop, and \<open>buildInScope\<close> the whole function: its deferred \<open>recover\<close> logs the
  panic and lets the function return normally, whatever was defined before stays.
\<close>

function buildStmt :: "Heap \<Rightarrow> nat \<Rightarrow> Statement \<Rightarrow> build"
  and buildLoop :: "Heap \<Rightarrow> nat \<Rightarrow> Statement list \<Rightarrow> build"
  and buildInScope :: "Heap \<Rightarrow> nat \<Rightarrow> Statement list \<Rightarrow> Heap" where
  "buildStmt h scope NilStmt = (None, h)"
| "buildStmt h scope (VarStatement name t v) =
     (case name of
        None \<Rightarrow> (Some (NilName ''VarStatement.Name is nil''), h)
      | Some n \<Rightarrow>
          define1 h scope
            \<lparr>Kind = SymVar, Name = Value n, Ident = Some n, Type = t, Value_s = v\<rparr>)"
| "buildStmt h scope (VarStatementNoKeyword name v) =
     (case name of
        None \<Rightarrow> (Some (NilName ''VarStatementNoKeyword.Name is nil''), h)
      | Some n \<Rightarrow>
          define1 h scope
            \<lparr>Kind = SymVar, Name = Value n, Ident = Some n, Type = NilType, Value_s = v\<rparr>)"
| "buildStmt h scope (ConstStatement name t v) =
     (case name of
        None \<Rightarrow> (Some (NilName ''ConstStatement.Name is nil''), h)
      | Some n \<Rightarrow>
          define1 h scope
            \<lparr>Kind = SymConst, Name = Value n, Ident = Some n, Type = t, Value_s = v\<rparr>)"
| "buildStmt h scope (MultiVarStatement names t v) =
     (case names of
        None \<Rightarrow> (Some (NilName ''MultiVarStatement.Names is nil''), h)
      | Some ns \<Rightarrow>
          defineNames h scope
            (\<lambda>name. \<lparr>Kind = SymVar, Name = Value name, Ident = Some name, Type = t,
                     Value_s = v\<rparr>) ns)"
| "buildStmt h scope (MultiVarStatementNoKeyword names v) =
     (case names of
        None \<Rightarrow> (Some (NilName ''MultiVarStatementNoKeyword.Names is nil''), h)
      | Some ns \<Rightarrow>
          defineNames h scope
            (\<lambda>name. \<lparr>Kind = SymVar, Name = Value name, Ident = Some name, Type = NilType,
                     Value_s = v\<rparr>) ns)"
| "buildStmt h scope (MultiConstStatement names t v) =
     (case names of
        None \<Rightarrow> (Some (NilName ''MultiConstStatement.Names is nil''), h)
      | Some ns \<Rightarrow>
          defineNames h scope
            (\<lambda>name. \<lparr>Kind = SymConst, Name = Value name, Ident = Some name, Type = t,
                     Value_s = v\<rparr>) ns)"
| "buildStmt h scope (FuncStatement name params body) =
     (case name of
        None \<Rightarrow> (Some (NilName ''FuncStatement.Name is nil''), h)
      | Some n \<Rightarrow>
          (case Define h scope
                  \<lparr>Kind = SymFunc, Name = Value n, Ident = Some n, Type = NilType,
                   Value_s = NilExpr\<rparr> of
             Inl e \<Rightarrow> (Some e, h)
           | Inr h1 \<Rightarrow>
               (case defineParams (fst (NewScope h1 (Some scope)))
                       (snd (NewScope h1 (Some scope))) params of
                  (Some e, h3) \<Rightarrow> (Some e, h3)
                | (None, h3) \<Rightarrow>
                    (None, buildInScope h3 (snd (NewScope h1 (Some scope))) body))))"
| "buildStmt h scope (TypeStatement nb name t) =
     (case name of
        None \<Rightarrow> (Some (NilName ''TypeStatement.Name is nil''), h)
      | Some n \<Rightarrow>
          (case typeName t of
             Inl e \<Rightarrow> (Some e, h)
           | Inr tn \<Rightarrow>
               define1 h scope
                 \<lparr>Kind = SymUserType, Name = Value n, Ident = Some n, Type = IdentType nb tn,
                  Value_s = NilExpr\<rparr>))"
| "buildStmt h scope (ForStatement init cond post body) =
     (let loopScope = snd (NewScope h (Some scope));
          h1 = fst (NewScope h (Some scope));
          h2 = (if init \<noteq> NilStmt then buildInScope h1 loopScope [init] else h1)
      in (None, buildInScope h2 loopScope body))"
| "buildStmt h scope (WhileStatement cond body) =
     (let loopScope = snd (NewScope h (Some scope));
          h1 = fst (NewScope h (Some scope))
      in (None, buildInScope h1 loopScope body))"
| "buildStmt h scope (IfStatement cond cons alt) =
     (let h2 = buildInScope (fst (NewScope h (Some scope)))
                 (snd (NewScope h (Some scope))) cons
      in case alt of
           None \<Rightarrow> (None, h2)
         | Some a \<Rightarrow>
             (None, buildInScope (fst (NewScope h2 (Some scope)))
                      (snd (NewScope h2 (Some scope))) a))"
| "buildStmt h scope (ExpressionStatement e) = (None, h)"
| "buildStmt h scope (AssignmentStatement n v) = (None, h)"
| "buildStmt h scope (MultiAssignmentStatement ns v) = (None, h)"
| "buildStmt h scope (IndexAssignmentStatement l i v) = (None, h)"
| "buildStmt h scope (SpawnStatement body) = (None, h)"
| "buildStmt h scope OtherStatement = (None, h)"
| "buildLoop h scope [] = (None, h)"
| "buildLoop h scope (stmt # stmts) =
     (case buildStmt h scope stmt of
        (Some e, h') \<Rightarrow> (Some e, h')
      | (None, h') \<Rightarrow> buildLoop h' scope stmts)"
| "buildInScope h scope stmts = snd (buildLoop h scope stmts)"
  by pat_completeness auto
termination
  by (relation "measure (\<lambda>x. case x of
        Inl (h, scope, stmt) \<Rightarrow> 3 * size stmt + 2
      | Inr (Inl (h, scope, stmts)) \<Rightarrow> 3 * size_list size stmts
      | Inr (Inr (h, scope, stmts)) \<Rightarrow> 3 * size_list size stmts + 1)") auto

declare buildInScope.simps [simp del]

text \<open>\<open>BuildSymbols\<close>: the loop over the built-in type names runs outside any \<open>recover\<close>.\<close>

definition builtinTypes :: "string list" where
  "builtinTypes = [''int'', ''float'', ''string'', ''bool'', ''arr'']"

fun defineBuiltins :: "Heap \<Rightarrow> nat \<Rightarrow> string list \<Rightarrow> fault + Heap" where
  "defineBuiltins h root [] = Inr h"
| "defineBuiltins h root (t # ts) =
     (case Define h root
             \<lparr>Kind = SymType, Name = t, Ident = None, Type = NilType, Value_s = NilExpr\<rparr> of
        Inl e \<Rightarrow> Inl e
      | Inr h' \<Rightarrow> defineBuiltins h' root ts)"

definition BuildSymbols :: "Statement list \<Rightarrow> fault + (Heap \<times> nat)" where
  "BuildSymbols stmts =
     (let root = snd (NewScope empty_heap None);
          h0 = fst (NewScope empty_heap None)
      in case defineBuiltins h0 root builtinTypes of
           Inl e \<Rightarrow> Inl e
         | Inr h1 \<Rightarrow> Inr (buildInScope h1 root stmts, root))"

section \<open>The position resolver (server.go)\<close>

record Position =
  Line_p :: int
  Character :: int

record Range =
  Start :: Position
  End :: Position

definition posInsideTok :: "Token \<Rightarrow> Position \<Rightarrow> bool" where
  "posInsideTok tok pos =
     (let line = int64 (Line tok - 1);
          endCol = int64 (Column tok - 1);
          startCol = int64 (endCol - len (Literal tok))
      in if Line_p pos \<noteq> line then False
         else Character pos \<ge> startCol \<and> Character pos < endCol)"

text \<open>
  \<open>walkForIdent\<close> returns a \<open>*parser.Identifier\<close>: \<open>Inr None\<close> is nil, \<open>Inr (Some i)\<close>
  a match, and \<open>Inl\<close> a runtime panic, which nothing recovers in the handlers. The
  idiom \<open>if res := walkForIdent(x, pos); res != nil { return res }\<close> followed by
  the rest of the case is \<open>orElse\<close>.
\<close>

type_synonym found = "fault + Identifier option"

definition orElse :: "found \<Rightarrow> found \<Rightarrow> found" where
  "orElse r rest = (case r of Inr None \<Rightarrow> rest | _ \<Rightarrow> r)"

text \<open>
  \<open>walkForIdent\<close> at a \<open>*parser.Identifier\<close>. A nil pointer passed as a
  \<open>parser.Node\<close> is not the nil interface, so the test \<open>n == nil\<close> lets it through
  and reading \<open>n.NodeBase\<close> faults.
\<close>

definition walkIdentifier :: "Identifier option \<Rightarrow> Position \<Rightarrow> found" where
  "walkIdentifier n pos =
     (case n of
        None \<Rightarrow> Inl NilDereference
      | Some i \<Rightarrow> if posInsideTok (NodeBase i) pos then Inr (Some i) else Inr None)"

fun walkNames :: "Identifier list \<Rightarrow> Position \<Rightarrow> found" where
  "walkNames [] pos = Inr None"
| "walkNames (name # names) pos = orElse (walkIdentifier (Some name) pos) (walkNames names pos)"

text \<open>
  \<open>walkForIdent\<close> at a type node and at a parameter: no case of the type switch
  matches these node kinds, so the result is nil.
\<close>

definition walkType :: "TypeNode \<Rightarrow> Position \<Rightarrow> found" where
  "walkType t pos = Inr None"

definition walkParam :: "Param \<Rightarrow> Position \<Rightarrow> found" where
  "walkParam p pos = Inr None"

fun walkParams :: "Param list \<Rightarrow> Position \<Rightarrow> found" where
  "walkParams [] pos = Inr None"
| "walkParams (p # ps) pos = orElse (walkParam p pos) (walkParams ps pos)"

text \<open>\<open>walkForIdent\<close> at an expression, and its loops over argument lists.\<close>

fun walkExpr :: "Expression \<Rightarrow> Position \<Rightarrow> found"
  and walkExprs :: "Expression list \<Rightarrow> Position \<Rightarrow> found" where
  "walkExpr NilExpr pos = Inr None"
| "walkExpr (IdentifierExpr i) pos = walkIdentifier (Some i) pos"
| "walkExpr (InfixExpression l _ r) pos = orElse (walkExpr l pos) (walkExpr r pos)"
| "walkExpr (IndexExpression l i) pos = orElse (walkExpr l pos) (walkExpr i pos)"
| "walkExpr (PrefixExpression _ r) pos = walkExpr r pos"
| "walkExpr (MemberExpression l f) pos =
     orElse (walkExpr l pos) (orElse (walkIdentifier (Some f) pos) (Inr None))"
| "walkExpr (FuncCall n args) pos =
     orElse (walkIdentifier (Some n) pos) (orElse (walkExprs args pos) (Inr None))"
| "walkExpr (StructLiteral tn flds) pos =
     orElse (walkIdentifier (Some tn) pos) (orElse (walkExprs flds pos) (Inr None))"
| "walkExpr (IntLiteral _) pos = Inr None"
| "walkExpr (FloatLiteral _) pos = Inr None"
| "walkExpr (StringLiteral _) pos = Inr None"
| "walkExpr (BoolLiteral _) pos = Inr None"
| "walkExpr (ArrayLiteral _) pos = Inr None"
| "walkExpr AnonymousStructLiteral pos = Inr None"
| "walkExpr OtherExpression pos = Inr None"
| "walkExprs [] pos = Inr None"
| "walkExprs (e # es) pos = orElse (walkExpr e pos) (walkExprs es pos)"

text \<open>The field names as \<open>walkForIdent\<close> concatenates them: nil fields and names are skipped.\<close>

fun fieldNamesW :: "StructField option list \<Rightarrow> string" where
  "fieldNamesW [] = []"
| "fieldNamesW (Some (StructField (Some n)) # fs) = Value n @ [CHR 0x0A] @ fieldNamesW fs"
| "fieldNamesW (_ # fs) = fieldNamesW fs"

text \<open>\<open>walkForIdent\<close> at a statement, and its loops over statement lists.\<close>

fun walkForIdent :: "Statement \<Rightarrow> Position \<Rightarrow> found"
  and walkStmts :: "Statement list \<Rightarrow> Position \<Rightarrow> found" where
  "walkForIdent NilStmt pos = Inr None"
| "walkForIdent (ExpressionStatement e) pos = walkExpr e pos"
| "walkForIdent (TypeStatement nb name t) pos =
     (case t of
        IdentType _ tn \<Rightarrow> Inr (Some \<lparr>NodeBase = nb, Value = tn\<rparr>)
      | StructType flds \<Rightarrow> Inr (Some \<lparr>NodeBase = nb, Value = structName (fieldNamesW flds)\<rparr>)
      | _ \<Rightarrow> Inr (Some \<lparr>NodeBase = nb, Value = ''unknown''\<rparr>))"
| "walkForIdent (VarStatement name t v) pos =
     orElse (walkIdentifier name pos)
       (orElse (if t \<noteq> NilType then walkType t pos else Inr None)
          (if v \<noteq> NilExpr then walkExpr v pos else Inr None))"
| "walkForIdent (ConstStatement name t v) pos =
     orElse (walkIdentifier name pos)
       (orElse (if t \<noteq> NilType then walkType t pos else Inr None)
          (if v \<noteq> NilExpr then walkExpr v pos else Inr None))"
| "walkForIdent (MultiVarStatement names t v) pos =
     orElse (case names of None \<Rightarrow> Inr None | Some ns \<Rightarrow> walkNames ns pos)
       (orElse (if t \<noteq> NilType then walkType t pos else Inr None)
          (if v \<noteq> NilExpr then walkExpr v pos else Inr None))"
| "walkForIdent (MultiConstStatement names t v) pos =
     orElse (case names of None \<Rightarrow> Inr None | Some ns \<Rightarrow> walkNames ns pos)
       (orElse (if t \<noteq> NilType then walkType t pos else Inr None)
          (if v \<noteq> NilExpr then walkExpr v pos else Inr None))"
| "walkForIdent (AssignmentStatement name v) pos =
     orElse (walkIdentifier (Some name) pos)
       (if v \<noteq> NilExpr then walkExpr v pos else Inr None)"
| "walkForIdent (MultiAssignmentStatement names v) pos =
     orElse (walkNames names pos)
       (if v \<noteq> NilExpr then walkExpr v pos else Inr None)"
| "walkForIdent (IndexAssignmentStatement l i v) pos =
     orElse (walkExpr l pos) (orElse (walkExpr i pos) (walkExpr v pos))"
| "walkForIdent (FuncStatement name params body) pos =
     orElse (walkIdentifier name pos)
       (orElse (walkParams params pos) (orElse (walkStmts body pos) (Inr None)))"
| "walkForIdent (SpawnStatement body) pos = orElse (walkStmts body pos) (Inr None)"
| "walkForIdent (IfStatement cond cons alt) pos =
     orElse (walkExpr cond pos)
       (orElse (walkStmts cons pos)
          (orElse (case alt of None \<Rightarrow> Inr None | Some a \<Rightarrow> walkStmts a pos) (Inr None)))"
| "walkForIdent (ForStatement init cond post body) pos =
     orElse (if init \<noteq> NilStmt then walkForIdent init pos else Inr None)
       (orElse (if cond \<noteq> NilExpr then walkExpr cond pos else Inr None)
          (orElse (if post \<noteq> NilStmt then walkForIdent post pos else Inr None)
             (orElse (walkStmts body pos) (Inr None))))"
| "walkForIdent (WhileStatement cond body) pos =
     orElse (walkExpr cond pos) (orElse (walkStmts body pos) (Inr None))"
| "walkForIdent (VarStatementNoKeyword name v) pos = Inr None"
| "walkForIdent (MultiVarStatementNoKeyword names v) pos = Inr None"
| "walkForIdent OtherStatement pos = Inr None"
| "walkStmts [] pos = Inr None"
| "walkStmts (stmt # stmts) pos = orElse (walkForIdent stmt pos) (walkStmts stmts pos)"

fun findIdentAt :: "Statement list \<Rightarrow> Position \<Rightarrow> found" where
  "findIdentAt [] pos = Inr None"
| "findIdentAt (stmt # statements) pos =
     orElse (walkForIdent stmt pos) (findIdentAt statements pos)"

section \<open>The query handlers (server.go)\<close>

record Location =
  URI :: string
  Range_l :: Range

text \<open>The \<open>result\<close> member of a response: JSON null, a hover, or a location.\<close>

datatype result = Null | HoverResult string | LocationResult Location

text \<open>
  What a handler does with one request: it is killed by a panic that nothing
  recovers, it never returns, it returns without writing a response, or it writes a
  response carrying the request's id.
\<close>

datatype outcome = Crash fault | NoReturn | NoResponse | Response int result

definition sendResponse :: "int option \<Rightarrow> result \<Rightarrow> outcome" where
  "sendResponse reqID res = (case reqID of None \<Rightarrow> NoResponse | Some i \<Rightarrow> Response i res)"

fun typeNodeToString :: "TypeNode \<Rightarrow> string" where
  "typeNodeToString NilType = ''unknown''"
| "typeNodeToString (IdentType _ n) = n"
| "typeNodeToString (ArrayType e) = ''[]'' @ typeNodeToString e"
| "typeNodeToString (StructType _) = ''struct''"
| "typeNodeToString OtherType = ''unknown''"

definition fence :: "string \<Rightarrow> string" where
  "fence body = ''```ayla'' @ [CHR 0x0A] @ body @ [CHR 0x0A] @ ''```''"

definition hoverFromSymbol :: "Symbol \<Rightarrow> string" where
  "hoverFromSymbol symb =
     (let typeStr = typeNodeToString (Type symb) in
      case Kind symb of
        SymVar \<Rightarrow> fence (''egg '' @ Name symb @ '' '' @ typeStr)
      | SymConst \<Rightarrow> fence (''rock '' @ Name symb @ '' '' @ typeStr)
      | SymFunc \<Rightarrow> fence (''fun '' @ Name symb @ '' (...)'')
      | SymParam \<Rightarrow> fence (''param '' @ Name symb @ '' '' @ typeStr)
      | SymStructField \<Rightarrow> fence (''field '' @ Name symb @ '' '' @ typeStr)
      | SymType \<Rightarrow> fence (''type '' @ Name symb)
      | SymUserType \<Rightarrow> fence (''type '' @ Name symb @ '' '' @ typeStr))"

text \<open>
  The resolver handed to \<open>inferExprType\<close> for a scope: what \<open>scope.Resolve\<close>
  returns. \<open>Resolve\<close> returns on every store without a parent cycle; the handlers
  call it on the root scope, which has no parent.
\<close>

definition resolverOf :: "Heap \<Rightarrow> nat option \<Rightarrow> string \<Rightarrow> Symbol option" where
  "resolverOf h scope name = (case Resolve h scope name of Some r \<Rightarrow> r | None \<Rightarrow> None)"

text \<open>
  The handlers take the decoded request (its id, the document URI and the position),
  the document store, and the external parser as the function \<open>parse\<close> from a text to
  its statements. A URI that is not in the store reads as the empty text.
\<close>

definition handleHover ::
  "(string \<Rightarrow> Statement list) \<Rightarrow> (string \<rightharpoonup> string) \<Rightarrow> int option \<Rightarrow> string \<Rightarrow> Position \<Rightarrow> outcome" where
  "handleHover parse documents reqID uri pos =
     (let text = (case documents uri of None \<Rightarrow> [] | Some t \<Rightarrow> t) in
      if text = [] then sendResponse reqID Null
      else
        let program = parse text in
        case BuildSymbols program of
          Inl e \<Rightarrow> Crash e
        | Inr (h, rootScope) \<Rightarrow>
            (case findIdentAt program pos of
               Inl e \<Rightarrow> Crash e
             | Inr None \<Rightarrow> sendResponse reqID Null
             | Inr (Some ident) \<Rightarrow>
                 (case Resolve h (Some rootScope) (Value ident) of
                    None \<Rightarrow> NoReturn
                  | Some None \<Rightarrow> sendResponse reqID Null
                  | Some (Some symb) \<Rightarrow>
                      (let inferred = inferExprType (resolverOf h (Some rootScope)) (Value_s symb);
                           symb' = (if Type symb = NilType \<and> Value_s symb \<noteq> NilExpr
                                       \<and> inferred \<noteq> NilType
                                    then symb\<lparr>Type := inferred\<rparr> else symb)
                       in sendResponse reqID (HoverResult (hoverFromSymbol symb'))))))"

text \<open>
  \<open>Pos()\<close> is a method of the parser package; the handler takes it as the function
  \<open>Pos\<close> from a (non-nil) identifier to its line and column. Calling it on the nil
  \<open>Ident\<close> of a built-in type symbol is a nil dereference.
\<close>

definition handleDefinition ::
  "(string \<Rightarrow> Statement list) \<Rightarrow> (Identifier \<Rightarrow> int \<times> int) \<Rightarrow> (string \<rightharpoonup> string)
     \<Rightarrow> int option \<Rightarrow> string \<Rightarrow> Position \<Rightarrow> outcome" where
  "handleDefinition parse Pos documents reqID uri pos =
     (let text = (case documents uri of None \<Rightarrow> [] | Some t \<Rightarrow> t) in
      if text = [] then sendResponse reqID Null
      else
        let program = parse text in
        case BuildSymbols program of
          Inl e \<Rightarrow> Crash e
        | Inr (h, rootScope) \<Rightarrow>
            (case findIdentAt program pos of
               Inl e \<Rightarrow> Crash e
             | Inr None \<Rightarrow> sendResponse reqID Null
             | Inr (Some ident) \<Rightarrow>
                 (case Resolve h (Some rootScope) (Value ident) of
                    None \<Rightarrow> NoReturn
                  | Some None \<Rightarrow> NoResponse
                  | Some (Some symb) \<Rightarrow>
                      (case Ident symb of
                         None \<Rightarrow> Crash NilDereference
                       | Some d \<Rightarrow>
                           (let line = int64 (fst (Pos d) - 1);
                                col = int64 (snd (Pos d) - 1)
                            in sendResponse reqID
                                 (LocationResult
                                    \<lparr>URI = uri,
                                     Range_l =
                                       \<lparr>Start = \<lparr>Line_p = line, Character = col\<rparr>,
                                        End = \<lparr>Line_p = line,
                                               Character = int64 (col + len (Value ident))\<rparr>\<rparr>\<rparr>))))))"

section \<open>Diagnostics (server.go)\<close>

text \<open>
  Modelled from the spec: the parser's \<open>ParseError\<close>, which the sources do not
  contain; it carries a one-based line, a one-based column and the offending token,
  the fields \<open>tokenRange\<close> reads. \<open>p.Errors()\<close> is a list of Go errors; only those
  that are parse errors produce a diagnostic.
\<close>

record ParseError =
  Line_e :: int
  Column_e :: int
  Token_e :: Token

datatype parserError = StructuredError ParseError | OtherError

record Diagnostic =
  Range_d :: Range
  Severity :: int
  Message :: string

definition tokenRange :: "ParseError \<Rightarrow> Range" where
  "tokenRange pe =
     (let startCol = int64 (Column_e pe - 1);
          length0 = len (Literal (Token_e pe));
          length1 = (if length0 = 0 then 1 else length0)
      in \<lparr>Start = \<lparr>Line_p = int64 (Line_e pe - 1), Character = startCol\<rparr>,
          End = \<lparr>Line_p = int64 (Line_e pe - 1), Character = int64 (startCol + length1)\<rparr>\<rparr>)"

text \<open>
  The diagnostics of \<open>publishDiagnostics\<close>, from the parser's error list; \<open>render\<close> is
  the \<open>Error()\<close> method of a parse error.
\<close>

fun diagnosticsOf :: "(ParseError \<Rightarrow> string) \<Rightarrow> parserError list \<Rightarrow> Diagnostic list" where
  "diagnosticsOf render [] = []"
| "diagnosticsOf render (OtherError # errs) = diagnosticsOf render errs"
| "diagnosticsOf render (StructuredError pe # errs) =
     \<lparr>Range_d = tokenRange pe, Severity = 1, Message = render pe\<rparr> # diagnosticsOf render errs"

text \<open>
  \<open>publishDiagnostics\<close> sends one notification with the URI and the diagnostics;
  \<open>errorsOf\<close> is the external parser run on the text, returning \<open>p.Errors()\<close>.
\<close>

definition publishDiagnostics ::
  "(string \<Rightarrow> parserError list) \<Rightarrow> (ParseError \<Rightarrow> string) \<Rightarrow> string \<Rightarrow> string
     \<Rightarrow> string \<times> Diagnostic list" where
  "publishDiagnostics errorsOf render uri text = (uri, diagnosticsOf render (errorsOf text))"

section \<open>Notions used to state the properties\<close>

text \<open>
  The shape of a type: a name, or an array of a shape. Struct types, the nil type and
  other type nodes have none.
\<close>

datatype shape = NameShape string | ArrayShape shape

fun shapeOf :: "TypeNode \<Rightarrow> shape option" where
  "shapeOf (IdentType _ n) = Some (NameShape n)"
| "shapeOf (ArrayType e) = map_option ArrayShape (shapeOf e)"
| "shapeOf _ = None"

text \<open>
  \<open>scopeChain h s cs\<close>: following \<open>Parent\<close> from the scope pointer \<open>s\<close> visits the
  addresses \<open>cs\<close>, innermost first, and then reaches nil.
\<close>

inductive scopeChain :: "Heap \<Rightarrow> nat option \<Rightarrow> nat list \<Rightarrow> bool" where
  chainNil: "scopeChain h None []"
| chainCons: "scopeChain h (Parent (cells h a)) cs \<Longrightarrow> scopeChain h (Some a) (a # cs)"

code_pred scopeChain .

text \<open>The binding of a name in the first scope of a list that has one.\<close>

fun firstBinding :: "Heap \<Rightarrow> nat list \<Rightarrow> string \<Rightarrow> Symbol option" where
  "firstBinding h [] name = None"
| "firstBinding h (a # cs) name =
     (case Symbols (cells h a) name of
        Some symb \<Rightarrow> Some symb
      | None \<Rightarrow> firstBinding h cs name)"

text \<open>The store with the bindings of the scope at \<open>c\<close> replaced.\<close>

definition setSymbols :: "Heap \<Rightarrow> nat \<Rightarrow> (string \<rightharpoonup> Symbol) \<Rightarrow> Heap" where
  "setSymbols h c m = h\<lparr>cells := (cells h)(c := (cells h c)\<lparr>Symbols := m\<rparr>)\<rparr>"

text \<open>The parse errors among the parser's errors, in order.\<close>

fun structuredErrors :: "parserError list \<Rightarrow> ParseError list" where
  "structuredErrors [] = []"
| "structuredErrors (StructuredError pe # errs) = pe # structuredErrors errs"
| "structuredErrors (OtherError # errs) = structuredErrors errs"

text \<open>A store with a root scope and one child scope that both bind \<open>x\<close>.\<close>

definition outerX :: Symbol where
  "outerX = \<lparr>Kind = SymVar, Name = ''x'', Ident = None, Type = IdentType zeroToken ''int'',
             Value_s = NilExpr\<rparr>"

definition innerX :: Symbol where
  "innerX = \<lparr>Kind = SymVar, Name = ''x'', Ident = None, Type = IdentType zeroToken ''string'',
             Value_s = NilExpr\<rparr>"

definition twoScopes :: Heap where
  "twoScopes =
     \<lparr>cells = (\<lambda>_. \<lparr>Parent = None, Symbols = Map.empty\<rparr>)
        (0 := \<lparr>Parent = None, Symbols = [''x'' \<mapsto> outerX]\<rparr>,
         1 := \<lparr>Parent = Some 0, Symbols = [''x'' \<mapsto> innerX]\<rparr>),
      used = 2\<rparr>"

text \<open>The identifiers a statement declares in the scope it occurs in.\<close>

fun declaredIdents :: "Statement \<Rightarrow> Identifier list" where
  "declaredIdents (VarStatement (Some n) _ _) = [n]"
| "declaredIdents (VarStatementNoKeyword (Some n) _) = [n]"
| "declaredIdents (ConstStatement (Some n) _ _) = [n]"
| "declaredIdents (MultiVarStatement (Some ns) _ _) = ns"
| "declaredIdents (MultiVarStatementNoKeyword (Some ns) _) = ns"
| "declaredIdents (MultiConstStatement (Some ns) _ _) = ns"
| "declaredIdents (FuncStatement (Some n) _ _) = [n]"
| "declaredIdents (TypeStatement _ (Some n) _) = [n]"
| "declaredIdents _ = []"

text \<open>
  \<open>grows h a ds h'\<close>: from store \<open>h\<close> to \<open>h'\<close> no scope was freed, the scopes of
  \<open>h\<close> other than \<open>a\<close> are unchanged, \<open>a\<close> kept its parent and its bindings, and every
  new binding of \<open>a\<close> is that of a declaring identifier in \<open>ds\<close>, under its text.
\<close>

definition grows :: "Heap \<Rightarrow> nat \<Rightarrow> Identifier list \<Rightarrow> Heap \<Rightarrow> bool" where
  "grows h a ds h' \<longleftrightarrow>
     used h \<le> used h' \<and>
     (\<forall>b<used h. b \<noteq> a \<longrightarrow> cells h' b = cells h b) \<and>
     Parent (cells h' a) = Parent (cells h a) \<and>
     (\<forall>n s. Symbols (cells h a) n = Some s \<longrightarrow> Symbols (cells h' a) n = Some s) \<and>
     (\<forall>n s. Symbols (cells h' a) n = Some s \<longrightarrow>
        Symbols (cells h a) n = Some s \<or>
        (Name s = n \<and> (\<exists>d\<in>set ds. Ident s = Some d \<and> Value d = n)))"

text \<open>\<open>below k h h'\<close>: the scopes at addresses under \<open>k\<close> are unchanged.\<close>

definition below :: "nat \<Rightarrow> Heap \<Rightarrow> Heap \<Rightarrow> bool" where
  "below k h h' \<longleftrightarrow> used h \<le> used h' \<and> (\<forall>b<k. cells h' b = cells h b)"

text \<open>The symbol of a built-in type name, as \<open>BuildSymbols\<close> creates it.\<close>

definition builtinSymbol :: "string \<Rightarrow> Symbol" where
  "builtinSymbol t = \<lparr>Kind = SymType, Name = t, Ident = None, Type = NilType, Value_s = NilExpr\<rparr>"

text \<open>The names a statement sequence declares in its own scope.\<close>

definition declaredNames :: "Statement list \<Rightarrow> string set" where
  "declaredNames stmts = Value ` set (concat (map declaredIdents stmts))"

text \<open>The store \<open>BuildSymbols\<close> returns; the root scope is at address 0 in it.\<close>

definition builtHeap :: "Statement list \<Rightarrow> Heap" where
  "builtHeap stmts = (case BuildSymbols stmts of Inr (h, root) \<Rightarrow> h | Inl e \<Rightarrow> empty_heap)"

text \<open>
  Example programs. \<open>identAt line col name\<close> is an identifier whose token has the text
  \<open>name\<close> and ends just before the one-based column \<open>col\<close> of line \<open>line\<close>.
\<close>

definition identAt :: "int \<Rightarrow> int \<Rightarrow> string \<Rightarrow> Identifier" where
  "identAt line col name = \<lparr>NodeBase = \<lparr>Line = line, Column = col, Literal = name\<rparr>, Value = name\<rparr>"

text \<open>\<open>egg int string\<close> followed by \<open>egg y string\<close>.\<close>

definition redefinesInt :: "Statement list" where
  "redefinesInt =
     [VarStatement (Some (identAt 1 8 ''int'')) (IdentType zeroToken ''string'') NilExpr,
      VarStatement (Some (identAt 2 6 ''y'')) (IdentType zeroToken ''string'') NilExpr]"

definition intType :: TypeNode where
  "intType = IdentType zeroToken ''int''"

text \<open>
  A function \<open>f\<close> whose body declares \<open>x\<close> (line 2) and then uses it (line 3); nothing
  else declares \<open>x\<close>.
\<close>

definition nestedOnly :: "Statement list" where
  "nestedOnly =
     [FuncStatement (Some (identAt 1 6 ''f'')) []
        [VarStatement (Some (identAt 2 8 ''x'')) intType NilExpr,
         ExpressionStatement (IdentifierExpr (identAt 3 4 ''x''))]]"

text \<open>The same function after a top-level \<open>egg x string\<close>; the use of \<open>x\<close> is on line 4.\<close>

definition shadowed :: "Statement list" where
  "shadowed =
     [VarStatement (Some (identAt 1 6 ''x'')) (IdentType zeroToken ''string'') NilExpr,
      FuncStatement (Some (identAt 2 6 ''f'')) []
        [VarStatement (Some (identAt 3 8 ''x'')) intType NilExpr,
         ExpressionStatement (IdentifierExpr (identAt 4 4 ''x''))]]"

text \<open>
  Modelled from the spec: the method \<open>Pos()\<close> of the parser package, which the sources
  call but do not contain. The declaration site of a symbol is the line and column
  of its declaring identifier (spec, section 3), and the coordinates an identifier
  carries are those of its token.
\<close>

definition tokenPos :: "Identifier \<Rightarrow> int \<times> int" where
  "tokenPos i = (Line (NodeBase i), Column (NodeBase i))"

text \<open>
  For the examples: a parser that returns a fixed statement list, and a store with
  one document (the handlers only test its text for emptiness; the statements come
  from the parser).
\<close>

definition parseTo :: "Statement list \<Rightarrow> string \<Rightarrow> Statement list" where
  "parseTo stmts text = stmts"

definition oneDocument :: "string \<rightharpoonup> string" where
  "oneDocument = [''file:///a.ayla'' \<mapsto> ''source text'']"

text \<open>
  A function whose body declares a variable named \<open>arr\<close>, like the built-in type, by
  \<open>egg arr = [1, 2]\<close> (line 2) and uses it (line 3).
\<close>

definition localArr :: "Statement list" where
  "localArr =
     [FuncStatement (Some (identAt 1 6 ''f'')) []
        [VarStatement (Some (identAt 2 10 ''arr'')) NilType
           (ArrayLiteral [IntLiteral \<lparr>Line = 2, Column = 15, Literal = ''1''\<rparr>,
                          IntLiteral \<lparr>Line = 2, Column = 18, Literal = ''2''\<rparr>]),
         ExpressionStatement (IdentifierExpr (identAt 3 6 ''arr''))]]"

text \<open>The one-line program \<open>foo\<close>: a use of a name nothing declares.\<close>

definition unresolvedUse :: "Statement list" where
  "unresolvedUse = [ExpressionStatement (IdentifierExpr (identAt 1 4 ''foo''))]"

text \<open>
  A function whose body declares \<open>x\<close> twice (lines 2 and 3), followed at top level by
  \<open>egg y int\<close> (line 5) and a use of \<open>y\<close> (line 6).
\<close>

definition duplicateInBody :: "Statement list" where
  "duplicateInBody =
     [FuncStatement (Some (identAt 1 6 ''f'')) []
        [VarStatement (Some (identAt 2 8 ''x'')) intType NilExpr,
         VarStatement (Some (identAt 3 8 ''x'')) intType NilExpr],
      VarStatement (Some (identAt 5 6 ''y'')) intType NilExpr,
      ExpressionStatement (IdentifierExpr (identAt 6 2 ''y''))]"



text \<open>
  The identifier pointers \<open>walkForIdent\<close> tests, in the order of its traversal, for an
  expression and for a statement. Array literals, parameters, type annotations and the
  declarations without keyword contribute none.
\<close>

fun visitedExpr :: "Expression \<Rightarrow> Identifier option list" where
  "visitedExpr (IdentifierExpr i) = [Some i]"
| "visitedExpr (InfixExpression l _ r) = visitedExpr l @ visitedExpr r"
| "visitedExpr (IndexExpression l i) = visitedExpr l @ visitedExpr i"
| "visitedExpr (PrefixExpression _ r) = visitedExpr r"
| "visitedExpr (MemberExpression l f) = visitedExpr l @ [Some f]"
| "visitedExpr (FuncCall n args) = Some n # concat (map visitedExpr args)"
| "visitedExpr (StructLiteral tn flds) = Some tn # concat (map visitedExpr flds)"
| "visitedExpr _ = []"

fun visitedStmt :: "Statement \<Rightarrow> Identifier option list" where
  "visitedStmt (ExpressionStatement e) = visitedExpr e"
| "visitedStmt (VarStatement name t v) = name # visitedExpr v"
| "visitedStmt (ConstStatement name t v) = name # visitedExpr v"
| "visitedStmt (MultiVarStatement names t v) =
     (case names of None \<Rightarrow> [] | Some ns \<Rightarrow> map Some ns) @ visitedExpr v"
| "visitedStmt (MultiConstStatement names t v) =
     (case names of None \<Rightarrow> [] | Some ns \<Rightarrow> map Some ns) @ visitedExpr v"
| "visitedStmt (AssignmentStatement name v) = Some name # visitedExpr v"
| "visitedStmt (MultiAssignmentStatement names v) = map Some names @ visitedExpr v"
| "visitedStmt (IndexAssignmentStatement l i v) = visitedExpr l @ visitedExpr i @ visitedExpr v"
| "visitedStmt (FuncStatement name params body) = name # concat (map visitedStmt body)"
| "visitedStmt (SpawnStatement body) = concat (map visitedStmt body)"
| "visitedStmt (IfStatement cond cons alt) =
     visitedExpr cond @ concat (map visitedStmt cons)
       @ (case alt of None \<Rightarrow> [] | Some a \<Rightarrow> concat (map visitedStmt a))"
| "visitedStmt (ForStatement init cond post body) =
     visitedStmt init @ visitedExpr cond @ visitedStmt post @ concat (map visitedStmt body)"
| "visitedStmt (WhileStatement cond body) = visitedExpr cond @ concat (map visitedStmt body)"
| "visitedStmt _ = []"

text \<open>No type declaration among the statements the traversal reaches.\<close>

fun noTypeDecl :: "Statement \<Rightarrow> bool" where
  "noTypeDecl (TypeStatement _ _ _) = False"
| "noTypeDecl (FuncStatement name params body) = (\<forall>s\<in>set body. noTypeDecl s)"
| "noTypeDecl (SpawnStatement body) = (\<forall>s\<in>set body. noTypeDecl s)"
| "noTypeDecl (IfStatement cond cons alt) =
     ((\<forall>s\<in>set cons. noTypeDecl s) \<and> (case alt of None \<Rightarrow> True | Some a \<Rightarrow> \<forall>s\<in>set a. noTypeDecl s))"
| "noTypeDecl (ForStatement init cond post body) =
     (noTypeDecl init \<and> noTypeDecl post \<and> (\<forall>s\<in>set body. noTypeDecl s))"
| "noTypeDecl (WhileStatement cond body) = (\<forall>s\<in>set body. noTypeDecl s)"
| "noTypeDecl _ = True"

text \<open>
  Linear search: the first identifier of a list whose token span contains the
  position; a nil pointer met before that is a fault.
\<close>

fun firstHit :: "Position \<Rightarrow> Identifier option list \<Rightarrow> found" where
  "firstHit pos [] = Inr None"
| "firstHit pos (None # ns) = Inl NilDereference"
| "firstHit pos (Some i # ns) =
     (if posInsideTok (NodeBase i) pos then Inr (Some i) else firstHit pos ns)"

text \<open>\<open>type T int\<close> on line 1 and a use of \<open>x\<close> on line 2.\<close>

definition typeDecl :: "Statement list" where
  "typeDecl =
     [TypeStatement \<lparr>Line = 1, Column = 5, Literal = ''type''\<rparr> (Some (identAt 1 7 ''T''))
        (IdentType \<lparr>Line = 1, Column = 11, Literal = ''int''\<rparr> ''int''),
      ExpressionStatement (IdentifierExpr (identAt 2 2 ''x''))]"

section \<open>Machine integers in range\<close>

lemma int64_id: "is_int64 x \<Longrightarrow> int64 x = x"
  unfolding int64_def is_int64_def by (simp add: mod_pos_pos_trivial)

lemma len_nonneg: "0 \<le> len s"
  by (simp add: len_def)

section \<open>Structural equality of types and inference\<close>

lemma sameTypeNode_shape:
  "sameTypeNode a b \<longleftrightarrow> shapeOf a \<noteq> None \<and> shapeOf a = shapeOf b"
proof (induction a b rule: sameTypeNode.induct)
  case (1 uu na b)
  then show ?case by (cases b) (auto simp: map_option_case split: option.splits)
next
  case (2 ea b)
  then show ?case by (cases b) (auto simp: map_option_case split: option.splits)
qed auto

lemma isIdent_shape: "isIdent t n \<longleftrightarrow> shapeOf t = Some (NameShape n)"
  by (cases t) (auto split: option.splits)

lemma elemsMatch_iff:
  "elemsMatch rs t es \<longleftrightarrow>
     (\<forall>el\<in>set es. inferExprType rs el \<noteq> NilType \<and> sameTypeNode t (inferExprType rs el))"
  by (induction es) (auto simp: Let_def)

text \<open>
  Claim C7. A binary expression infers to unknown (the nil type) if either operand
  does; to the left operand's type if both operand types have the same shape; to
  \<open>float\<close> if one operand is \<open>int\<close> and the other \<open>float\<close>, in either order; and to
  unknown on any other mismatch. So \<open>1 + 2.5\<close> is \<open>float\<close>, \<open>1 + 2\<close> is \<open>int\<close> and
  \<open>"a" + 1\<close> is unknown.
\<close>

theorem infix_inference:
  "(inferExprType rs l = NilType \<or> inferExprType rs r = NilType \<longrightarrow>
      inferExprType rs (InfixExpression l op r) = NilType)
   \<and> (inferExprType rs l \<noteq> NilType \<and> inferExprType rs r \<noteq> NilType \<and>
      shapeOf (inferExprType rs l) \<noteq> None \<and>
      shapeOf (inferExprType rs l) = shapeOf (inferExprType rs r) \<longrightarrow>
      inferExprType rs (InfixExpression l op r) = inferExprType rs l)
   \<and> (shapeOf (inferExprType rs l) = Some (NameShape ''int'') \<and>
      shapeOf (inferExprType rs r) = Some (NameShape ''float'')
      \<or> shapeOf (inferExprType rs l) = Some (NameShape ''float'') \<and>
        shapeOf (inferExprType rs r) = Some (NameShape ''int'') \<longrightarrow>
      inferExprType rs (InfixExpression l op r) = IdentType zeroToken ''float'')
   \<and> (inferExprType rs l \<noteq> NilType \<and> inferExprType rs r \<noteq> NilType \<and>
      \<not> (shapeOf (inferExprType rs l) \<noteq> None \<and>
         shapeOf (inferExprType rs l) = shapeOf (inferExprType rs r)) \<and>
      \<not> (shapeOf (inferExprType rs l) = Some (NameShape ''int'') \<and>
         shapeOf (inferExprType rs r) = Some (NameShape ''float'')
         \<or> shapeOf (inferExprType rs l) = Some (NameShape ''float'') \<and>
           shapeOf (inferExprType rs r) = Some (NameShape ''int'')) \<longrightarrow>
      inferExprType rs (InfixExpression l op r) = NilType)
   \<and> inferExprType rs (InfixExpression (IntLiteral t1) op (FloatLiteral t2))
       = IdentType zeroToken ''float''
   \<and> inferExprType rs (InfixExpression (IntLiteral t1) op (IntLiteral t2))
       = IdentType zeroToken ''int''
   \<and> inferExprType rs (InfixExpression (StringLiteral t1) op (IntLiteral t2)) = NilType"
  by (auto simp: Let_def sameTypeNode_shape isIdent_shape)

theorem infix_inference_witness:
  "inferExprType Map.empty (IdentifierExpr \<lparr>NodeBase = zeroToken, Value = ''u''\<rparr>) = NilType
   \<and> inferExprType Map.empty
       (InfixExpression (IdentifierExpr \<lparr>NodeBase = zeroToken, Value = ''u''\<rparr>) ''+''
          (IntLiteral zeroToken)) = NilType
   \<and> shapeOf (inferExprType Map.empty (ArrayLiteral [IntLiteral zeroToken]))
       = shapeOf (inferExprType Map.empty (ArrayLiteral [IntLiteral zeroToken, IntLiteral zeroToken]))
   \<and> inferExprType Map.empty
       (InfixExpression (ArrayLiteral [IntLiteral zeroToken]) ''+''
          (ArrayLiteral [IntLiteral zeroToken, IntLiteral zeroToken]))
       = ArrayType (IdentType zeroToken ''int'')
   \<and> shapeOf (inferExprType Map.empty (FloatLiteral zeroToken)) = Some (NameShape ''float'')
   \<and> shapeOf (inferExprType Map.empty (IntLiteral zeroToken)) = Some (NameShape ''int'')
   \<and> inferExprType Map.empty
       (InfixExpression (FloatLiteral zeroToken) ''*'' (IntLiteral zeroToken))
       = IdentType zeroToken ''float''
   \<and> inferExprType Map.empty
       (InfixExpression (BoolLiteral zeroToken) ''+'' (ArrayLiteral [IntLiteral zeroToken]))
       = NilType"
  using infix_inference [of Map.empty "IdentifierExpr \<lparr>NodeBase = zeroToken, Value = ''u''\<rparr>"
          "IntLiteral zeroToken" "''+''"]
        infix_inference [of Map.empty "ArrayLiteral [IntLiteral zeroToken]"
          "ArrayLiteral [IntLiteral zeroToken, IntLiteral zeroToken]" "''+''"]
        infix_inference [of Map.empty "FloatLiteral zeroToken" "IntLiteral zeroToken" "''*''"]
        infix_inference [of Map.empty "BoolLiteral zeroToken"
          "ArrayLiteral [IntLiteral zeroToken]" "''+''"]
  by simp

text \<open>
  Claim C8. An array literal without elements infers to unknown. With at least one
  element it infers to array-of-(type of the first element) if the first element is
  not unknown and every remaining element infers to a type that is not unknown and
  has the same shape as the first (names equal, or arrays of equal shapes); otherwise
  it infers to unknown.
\<close>

theorem array_literal_inference:
  "inferExprType rs (ArrayLiteral []) = NilType \<and>
   inferExprType rs (ArrayLiteral (e0 # es)) =
     (if inferExprType rs e0 \<noteq> NilType \<and>
         (\<forall>el\<in>set es. inferExprType rs el \<noteq> NilType
            \<and> shapeOf (inferExprType rs e0) \<noteq> None
            \<and> shapeOf (inferExprType rs e0) = shapeOf (inferExprType rs el))
      then ArrayType (inferExprType rs e0) else NilType)"
  by (auto simp: Let_def elemsMatch_iff sameTypeNode_shape)

theorem array_literal_inference_witness:
  "inferExprType Map.empty (ArrayLiteral []) = NilType
   \<and> inferExprType Map.empty
       (ArrayLiteral [IntLiteral zeroToken, IntLiteral zeroToken, IntLiteral zeroToken])
       = ArrayType (IdentType zeroToken ''int'')
   \<and> inferExprType Map.empty (ArrayLiteral [IntLiteral zeroToken, StringLiteral zeroToken])
       = NilType
   \<and> inferExprType Map.empty
       (ArrayLiteral [ArrayLiteral [BoolLiteral zeroToken], ArrayLiteral [BoolLiteral zeroToken]])
       = ArrayType (ArrayType (IdentType zeroToken ''bool''))"
  using array_literal_inference [of Map.empty "IntLiteral zeroToken"
          "[IntLiteral zeroToken, IntLiteral zeroToken]"]
        array_literal_inference [of Map.empty "IntLiteral zeroToken" "[StringLiteral zeroToken]"]
        array_literal_inference [of Map.empty "ArrayLiteral [BoolLiteral zeroToken]"
          "[ArrayLiteral [BoolLiteral zeroToken]]"]
  by simp

section \<open>Diagnostics\<close>

lemma tokenRange_in_range:
  assumes L: "1 \<le> Line_e pe" "Line_e pe < 2 ^ 63"
    and C: "1 \<le> Column_e pe"
    and E: "Column_e pe - 1 + max (len (Literal (Token_e pe))) 1 < 2 ^ 63"
  shows "tokenRange pe =
     \<lparr>Start = \<lparr>Line_p = Line_e pe - 1, Character = Column_e pe - 1\<rparr>,
      End = \<lparr>Line_p = Line_e pe - 1,
             Character = Column_e pe - 1 + max (len (Literal (Token_e pe))) 1\<rparr>\<rparr>"
proof -
  let ?n = "len (Literal (Token_e pe))"
  have n0: "0 \<le> ?n" by (rule len_nonneg)
  have l: "int64 (Line_e pe - 1) = Line_e pe - 1"
    using L by (intro int64_id) (simp add: is_int64_def)
  have c: "int64 (Column_e pe - 1) = Column_e pe - 1"
    using C E by (intro int64_id) (simp add: is_int64_def)
  have m: "(if ?n = 0 then 1 else ?n) = max ?n 1"
    using n0 by (simp add: max_def)
  have e: "int64 (Column_e pe - 1 + max ?n 1) = Column_e pe - 1 + max ?n 1"
    using C E by (intro int64_id) (simp add: is_int64_def)
  show ?thesis
    unfolding tokenRange_def Let_def l c m e by simp
qed

lemma diagnosticsOf_map:
  "diagnosticsOf render errs =
     map (\<lambda>pe. \<lparr>Range_d = tokenRange pe, Severity = 1, Message = render pe\<rparr>)
       (structuredErrors errs)"
  by (induction render errs rule: diagnosticsOf.induct) auto

text \<open>
  Claim C9. The diagnostics pass emits, for every structured parse error and in
  order, one diagnostic of severity 1 (error) with the error's rendered message; for
  an error at one-based line \<open>L\<close> and column \<open>C\<close> whose token has \<open>n\<close> bytes (all within
  the range of a machine integer), its range is from \<open>(L - 1, C - 1)\<close> to
  \<open>(L - 1, C - 1 + max n 1)\<close>.
\<close>

theorem diagnostics_range:
  assumes "\<forall>pe\<in>set (structuredErrors (errorsOf text)).
             1 \<le> Line_e pe \<and> Line_e pe < 2 ^ 63 \<and> 1 \<le> Column_e pe \<and>
             Column_e pe - 1 + max (len (Literal (Token_e pe))) 1 < 2 ^ 63"
  shows "publishDiagnostics errorsOf render uri text =
     (uri,
      map (\<lambda>pe. \<lparr>Range_d =
                   \<lparr>Start = \<lparr>Line_p = Line_e pe - 1, Character = Column_e pe - 1\<rparr>,
                    End = \<lparr>Line_p = Line_e pe - 1,
                           Character = Column_e pe - 1 + max (len (Literal (Token_e pe))) 1\<rparr>\<rparr>,
                 Severity = 1, Message = render pe\<rparr>)
        (structuredErrors (errorsOf text)))"
  unfolding publishDiagnostics_def diagnosticsOf_map
  using assms by (auto simp: tokenRange_in_range)

theorem diagnostics_range_witness:
  "publishDiagnostics
     (\<lambda>_. [OtherError,
           StructuredError \<lparr>Line_e = 1, Column_e = 5,
                            Token_e = \<lparr>Line = 1, Column = 5, Literal = ''abc''\<rparr>\<rparr>,
           StructuredError \<lparr>Line_e = 3, Column_e = 1,
                            Token_e = \<lparr>Line = 3, Column = 1, Literal = []\<rparr>\<rparr>])
     (\<lambda>_. ''unexpected token'') ''file:///a.ayla'' ''egg 1abc''
   = (''file:///a.ayla'',
      [\<lparr>Range_d = \<lparr>Start = \<lparr>Line_p = 0, Character = 4\<rparr>, End = \<lparr>Line_p = 0, Character = 7\<rparr>\<rparr>,
        Severity = 1, Message = ''unexpected token''\<rparr>,
       \<lparr>Range_d = \<lparr>Start = \<lparr>Line_p = 2, Character = 0\<rparr>, End = \<lparr>Line_p = 2, Character = 1\<rparr>\<rparr>,
        Severity = 1, Message = ''unexpected token''\<rparr>])"
  using diagnostics_range
    [of "\<lambda>_. [OtherError,
           StructuredError \<lparr>Line_e = 1, Column_e = 5,
                            Token_e = \<lparr>Line = 1, Column = 5, Literal = ''abc''\<rparr>\<rparr>,
           StructuredError \<lparr>Line_e = 3, Column_e = 1,
                            Token_e = \<lparr>Line = 3, Column = 1, Literal = []\<rparr>\<rparr>]"
        "''egg 1abc''" "\<lambda>_. ''unexpected token''" "''file:///a.ayla''"]
  by (simp add: len_def)

section \<open>Name resolution\<close>

lemma Resolve_chain:
  "scopeChain h s cs \<Longrightarrow> Resolve h s name = Some (firstBinding h cs name)"
proof (induction rule: scopeChain.induct)
  case (chainNil h)
  show ?case by (subst Resolve.simps) simp
next
  case (chainCons h a cs)
  show ?case by (subst Resolve.simps) (simp add: chainCons.IH split: option.splits)
qed

lemma scopeChain_setSymbols:
  "scopeChain h s cs \<Longrightarrow> c \<notin> set cs \<Longrightarrow> scopeChain (setSymbols h c m) s cs"
proof (induction rule: scopeChain.induct)
  case (chainNil h)
  show ?case by (rule scopeChain.chainNil)
next
  case (chainCons h a cs)
  then have "scopeChain (setSymbols h c m) (Parent (cells (setSymbols h c m) a)) cs"
    by (simp add: setSymbols_def)
  then show ?case by (rule scopeChain.chainCons)
qed

lemma firstBinding_setSymbols:
  "c \<notin> set cs \<Longrightarrow> firstBinding (setSymbols h c m) cs name = firstBinding h cs name"
  by (induction cs) (auto simp: setSymbols_def split: option.splits)

lemma firstBinding_None:
  "firstBinding h cs name = None \<longleftrightarrow> (\<forall>a\<in>set cs. Symbols (cells h a) name = None)"
  by (induction cs) (auto split: option.splits)

text \<open>
  Claim C6. On a scope chain (the scopes reached from \<open>s\<close> through parent links, up
  to nil), \<open>Resolve\<close> returns, and its result is the binding of the name in the first
  scope of the chain that binds it: a binding in the scope itself wins over every
  outer one, the result is not-found exactly if no scope of the chain binds the name,
  and the bindings of a scope outside the chain (a child, a sibling) do not change
  the result.
\<close>

theorem resolve_innermost_first:
  assumes "scopeChain h s cs"
  shows "Resolve h s name = Some (firstBinding h cs name)
    \<and> (\<forall>a rest symb. cs = a # rest \<and> Symbols (cells h a) name = Some symb \<longrightarrow>
          Resolve h s name = Some (Some symb))
    \<and> (Resolve h s name = Some None \<longleftrightarrow> (\<forall>a\<in>set cs. Symbols (cells h a) name = None))
    \<and> (\<forall>c m. c \<notin> set cs \<longrightarrow> Resolve (setSymbols h c m) s name = Resolve h s name)"
proof -
  have r: "Resolve h s name = Some (firstBinding h cs name)"
    using assms by (rule Resolve_chain)
  have inner: "\<forall>a rest symb. cs = a # rest \<and> Symbols (cells h a) name = Some symb \<longrightarrow>
          Resolve h s name = Some (Some symb)"
    unfolding r by auto
  have nf: "Resolve h s name = Some None \<longleftrightarrow> (\<forall>a\<in>set cs. Symbols (cells h a) name = None)"
    unfolding r by (simp add: firstBinding_None)
  have fr: "\<forall>c m. c \<notin> set cs \<longrightarrow> Resolve (setSymbols h c m) s name = Resolve h s name"
  proof (intro allI impI)
    fix c m
    assume c: "c \<notin> set cs"
    have "Resolve (setSymbols h c m) s name = Some (firstBinding (setSymbols h c m) cs name)"
      using scopeChain_setSymbols [OF assms c] by (rule Resolve_chain)
    then show "Resolve (setSymbols h c m) s name = Resolve h s name"
      unfolding r by (simp add: firstBinding_setSymbols [OF c])
  qed
  from r inner nf fr show ?thesis by blast
qed

lemma scopeChain_step:
  "Parent (cells h a) = p \<Longrightarrow> scopeChain h p cs \<Longrightarrow> scopeChain h (Some a) (a # cs)"
  by (auto intro: scopeChain.chainCons)

theorem resolve_innermost_first_witness:
  "scopeChain twoScopes (Some 1) [1, 0] \<and> scopeChain twoScopes (Some 0) [0]
   \<and> Resolve twoScopes (Some 1) ''x'' = Some (Some innerX)
   \<and> Resolve twoScopes (Some 0) ''x'' = Some (Some outerX)
   \<and> Resolve twoScopes (Some 1) ''y'' = Some None
   \<and> Resolve (setSymbols twoScopes 1 Map.empty) (Some 0) ''x'' = Some (Some outerX)"
proof -
  have c0: "scopeChain twoScopes (Some 0) [0]"
    by (rule scopeChain_step [OF _ scopeChain.chainNil]) (simp add: twoScopes_def)
  have c1: "scopeChain twoScopes (Some 1) [1, 0]"
    by (rule scopeChain_step [OF _ c0]) (simp add: twoScopes_def)
  show ?thesis
    using c0 c1 resolve_innermost_first [OF c1, of "''x''"]
      resolve_innermost_first [OF c0, of "''x''"]
      resolve_innermost_first [OF c1, of "''y''"]
    by (simp add: twoScopes_def)
qed

section \<open>What a build changes in the store\<close>

lemma grows_refl: "grows h a ds h"
  by (simp add: grows_def)

lemma grows_weaken: "grows h a ds h' \<Longrightarrow> set ds \<subseteq> set ds' \<Longrightarrow> grows h a ds' h'"
  unfolding grows_def by blast

lemma grows_trans:
  assumes "grows h a ds1 h1" "grows h1 a ds2 h2"
  shows "grows h a (ds1 @ ds2) h2"
  using assms unfolding grows_def
  apply (intro conjI)
      apply simp
     apply (metis order_less_le_trans)
    apply simp
   apply blast
  apply (intro allI impI)
  apply (simp only: set_append bex_Un)
  apply blast
  done

lemma below_refl: "below k h h"
  by (simp add: below_def)

lemma below_trans: "below k h h1 \<Longrightarrow> below k h1 h2 \<Longrightarrow> below k h h2"
  by (auto simp: below_def)

lemma below_grows: "below (used h) h h' \<Longrightarrow> a < used h \<Longrightarrow> grows h a [] h'"
  by (auto simp: below_def grows_def)

lemma grows_below: "grows h c ds h' \<Longrightarrow> k \<le> c \<Longrightarrow> c < used h \<Longrightarrow> below k h h'"
  by (auto simp: below_def grows_def)

lemma NewScope_used [simp]: "used (fst (NewScope h p)) = Suc (used h)"
  by (simp add: NewScope_def)

lemma NewScope_addr [simp]: "snd (NewScope h p) = used h"
  by (simp add: NewScope_def)

lemma NewScope_below: "below (used h) h (fst (NewScope h p))"
  by (simp add: NewScope_def below_def)

lemma Define_Inr:
  assumes "Define h a symb = Inr h'"
  shows "used h' = used h" "\<And>b. b \<noteq> a \<Longrightarrow> cells h' b = cells h b"
    "Parent (cells h' a) = Parent (cells h a)"
    "Symbols (cells h' a) = (Symbols (cells h a))(Name symb \<mapsto> symb)"
    "Symbols (cells h a) (Name symb) = None"
  using assms by (auto simp: Define_def split: if_splits)

lemma Define_grows:
  assumes "Define h a symb = Inr h'" "Name symb = Value d" "Ident symb = Some d"
  shows "grows h a [d] h'"
  using Define_Inr [OF assms(1)] assms(2,3)
  unfolding grows_def by (auto split: if_splits)

lemma define1_grows:
  assumes "Name symb = Value d" "Ident symb = Some d"
  shows "grows h a [d] (snd (define1 h a symb))"
  using assms by (auto simp: define1_def grows_refl Define_grows split: sum.splits)

lemma defineNames_grows:
  assumes "\<And>n. Name (mk n) = Value n \<and> Ident (mk n) = Some n"
  shows "grows h a ns (snd (defineNames h a mk ns))"
proof (induction ns arbitrary: h)
  case Nil
  show ?case by (simp add: grows_refl)
next
  case (Cons n ns)
  show ?case
  proof (cases "Define h a (mk n)")
    case (Inl e)
    then show ?thesis by (simp add: grows_refl)
  next
    case (Inr h1)
    have "grows h a [n] h1" using Inr assms by (intro Define_grows) auto
    from grows_trans [OF this Cons.IH [of h1]] show ?thesis using Inr by simp
  qed
qed

lemma Define_below: "Define h c symb = Inr h' \<Longrightarrow> k \<le> c \<Longrightarrow> below k h h'"
  using Define_Inr(1,2) [of h c symb h'] by (auto simp: below_def)

lemma defineParams_below: "k \<le> c \<Longrightarrow> below k h (snd (defineParams h c ps))"
proof (induction ps arbitrary: h)
  case Nil
  show ?case by (simp add: below_refl)
next
  case (Cons p ps)
  then show ?case
    by (auto simp: below_refl split: sum.splits intro: below_trans Define_below)
qed

lemma defineParams_used: "used (snd (defineParams h c ps)) = used h"
  by (induction ps arbitrary: h) (auto split: sum.splits dest: Define_Inr(1))

lemma build_grows:
  "(a < used h \<longrightarrow> grows h a (declaredIdents stmt) (snd (buildStmt h a stmt)))"
  "(a < used h \<longrightarrow> grows h a (concat (map declaredIdents stmts)) (snd (buildLoop h a stmts)))"
  "(a < used h \<longrightarrow> grows h a (concat (map declaredIdents stmts)) (buildInScope h a stmts))"
proof (induction h a stmt and h a stmts and h a stmts rule: buildStmt_buildLoop_buildInScope.induct)
  case (1 h scope)
  then show ?case by (simp add: grows_refl)
next
  case (2 h scope name t v)
  then show ?case by (cases name) (simp_all add: grows_refl define1_grows)
next
  case (3 h scope name v)
  then show ?case by (cases name) (simp_all add: grows_refl define1_grows)
next
  case (4 h scope name t v)
  then show ?case by (cases name) (simp_all add: grows_refl define1_grows)
next
  case (5 h scope names t v)
  then show ?case by (cases names) (simp_all add: grows_refl defineNames_grows)
next
  case (6 h scope names v)
  then show ?case by (cases names) (simp_all add: grows_refl defineNames_grows)
next
  case (7 h scope names t v)
  then show ?case by (cases names) (simp_all add: grows_refl defineNames_grows)
next
  case (8 h scope name params body)
  show ?case
  proof (intro impI)
    assume a: "scope < used h"
    show "grows h scope (declaredIdents (FuncStatement name params body))
            (snd (buildStmt h scope (FuncStatement name params body)))"
    proof (cases name)
      case None
      then show ?thesis by (simp add: grows_refl)
    next
      case (Some n)
      let ?fn = "\<lparr>Kind = SymFunc, Name = Value n, Ident = Some n, Type = NilType, Value_s = NilExpr\<rparr>"
      show ?thesis
      proof (cases "Define h scope ?fn")
        case (Inl e)
        then show ?thesis using Some by (simp add: grows_refl)
      next
        case (Inr h1)
        let ?h2 = "fst (NewScope h1 (Some scope))"
        let ?c = "snd (NewScope h1 (Some scope))"
        obtain r h3 where dp: "defineParams ?h2 ?c params = (r, h3)" by (cases "defineParams ?h2 ?c params")
        have g1: "grows h scope [n] h1" using Inr by (intro Define_grows) auto
        have u1: "used h1 = used h" using Inr by (rule Define_Inr(1))
        have b2: "below (used h1) h1 ?h2" by (rule NewScope_below)
        have b3: "below (used h1) ?h2 h3" using defineParams_below [of "used h1" ?c ?h2 params] dp by simp
        have u3: "used h3 = Suc (used h1)" using defineParams_used [of ?h2 ?c params] dp by simp
        have b13: "below (used h1) h1 h3" using b2 b3 by (rule below_trans)
        show ?thesis
        proof (cases r)
          case (Some e)
          have "grows h1 scope [] h3" using b13 a u1 by (intro below_grows) auto
          from grows_trans [OF g1 this] show ?thesis using \<open>name = Some n\<close> Inr dp Some by simp
        next
          case None
          have "?c < used h3 \<longrightarrow> grows h3 ?c (concat (map declaredIdents body)) (buildInScope h3 ?c body)"
            using "8.IH" [OF \<open>name = Some n\<close> Inr dp [symmetric] None] .
          then have "grows h3 ?c (concat (map declaredIdents body)) (buildInScope h3 ?c body)"
            using u3 by simp
          then have "below (used h1) h3 (buildInScope h3 ?c body)"
            using u3 by (intro grows_below) auto
          with b13 have "below (used h1) h1 (buildInScope h3 ?c body)" by (rule below_trans)
          then have "grows h1 scope [] (buildInScope h3 ?c body)" using a u1 by (intro below_grows) auto
          from grows_trans [OF g1 this] show ?thesis using \<open>name = Some n\<close> Inr dp None by simp
        qed
      qed
    qed
  qed
next
  case (9 h scope nb name t)
  then show ?case by (cases name) (auto simp: grows_refl define1_grows split: sum.splits)
next
  case (10 h scope init cond post body)
  show ?case
  proof (intro impI)
    assume a: "scope < used h"
    let ?h1 = "fst (NewScope h (Some scope))"
    let ?c = "snd (NewScope h (Some scope))"
    let ?h2 = "if init \<noteq> NilStmt then buildInScope ?h1 ?c [init] else ?h1"
    have b1: "below (used h) h ?h1" by (rule NewScope_below)
    have b2: "below (used h) ?h1 ?h2 \<and> Suc (used h) \<le> used ?h2"
    proof (cases "init = NilStmt")
      case True
      then show ?thesis by (simp add: below_refl)
    next
      case False
      have "grows ?h1 ?c (concat (map declaredIdents [init])) (buildInScope ?h1 ?c [init])"
        using "10.IH"(1) [OF refl refl False] by simp
      then show ?thesis using False by (auto intro: grows_below simp: grows_def)
    qed
    have "grows ?h2 ?c (concat (map declaredIdents body)) (buildInScope ?h2 ?c body)"
      using "10.IH"(2) [OF refl refl refl] b2 by simp
    then have "below (used h) ?h2 (buildInScope ?h2 ?c body)"
      using b2 by (intro grows_below) auto
    with b1 b2 have "below (used h) h (buildInScope ?h2 ?c body)" by (blast intro: below_trans)
    then have "grows h scope [] (buildInScope ?h2 ?c body)" using a by (rule below_grows)
    then show "grows h scope (declaredIdents (ForStatement init cond post body))
            (snd (buildStmt h scope (ForStatement init cond post body)))"
      by (cases "init = NilStmt") (simp_all add: Let_def)
  qed
next
  case (11 h scope cond body)
  show ?case
  proof (intro impI)
    assume a: "scope < used h"
    let ?h1 = "fst (NewScope h (Some scope))"
    let ?c = "snd (NewScope h (Some scope))"
    have b1: "below (used h) h ?h1" by (rule NewScope_below)
    have "grows ?h1 ?c (concat (map declaredIdents body)) (buildInScope ?h1 ?c body)"
      using "11.IH" [OF refl refl] by simp
    then have "below (used h) ?h1 (buildInScope ?h1 ?c body)" by (intro grows_below) auto
    with b1 have "below (used h) h (buildInScope ?h1 ?c body)" by (rule below_trans)
    then have "grows h scope [] (buildInScope ?h1 ?c body)" using a by (rule below_grows)
    then show "grows h scope (declaredIdents (WhileStatement cond body))
            (snd (buildStmt h scope (WhileStatement cond body)))"
      by (simp add: Let_def)
  qed
next
  case (12 h scope cond cons alt)
  show ?case
  proof (intro impI)
    assume a: "scope < used h"
    let ?h1 = "fst (NewScope h (Some scope))"
    let ?c = "snd (NewScope h (Some scope))"
    let ?h2 = "buildInScope ?h1 ?c cons"
    have b1: "below (used h) h ?h1" by (rule NewScope_below)
    have g2: "grows ?h1 ?c (concat (map declaredIdents cons)) ?h2"
      using "12.IH"(1) by simp
    then have "below (used h) ?h1 ?h2" by (intro grows_below) auto
    with b1 have b2: "below (used h) h ?h2" by (rule below_trans)
    have u2: "used h \<le> used ?h2" using b2 by (simp add: below_def)
    show "grows h scope (declaredIdents (IfStatement cond cons alt))
            (snd (buildStmt h scope (IfStatement cond cons alt)))"
    proof (cases alt)
      case None
      then show ?thesis using below_grows [OF b2 a] by (simp add: Let_def)
    next
      case (Some al)
      let ?h3 = "fst (NewScope ?h2 (Some scope))"
      let ?c2 = "snd (NewScope ?h2 (Some scope))"
      have b3: "below (used h) ?h2 ?h3" using NewScope_below [of ?h2 "Some scope"] u2
        by (auto simp: below_def)
      have "grows ?h3 ?c2 (concat (map declaredIdents al)) (buildInScope ?h3 ?c2 al)"
        using "12.IH"(2) [OF refl Some] by simp
      then have "below (used h) ?h3 (buildInScope ?h3 ?c2 al)" using u2 by (intro grows_below) auto
      with b2 b3 have "below (used h) h (buildInScope ?h3 ?c2 al)" by (blast intro: below_trans)
      from below_grows [OF this a] show ?thesis using Some by (simp add: Let_def)
    qed
  qed
next
  case (20 h scope stmt stmts)
  show ?case
  proof (intro impI)
    assume a: "scope < used h"
    obtain r h1 where bs: "buildStmt h scope stmt = (r, h1)" by (cases "buildStmt h scope stmt")
    have g1: "grows h scope (declaredIdents stmt) h1" using "20.IH"(1) a bs by simp
    show "grows h scope (concat (map declaredIdents (stmt # stmts))) (snd (buildLoop h scope (stmt # stmts)))"
    proof (cases r)
      case (Some e)
      then show ?thesis using bs grows_weaken [OF g1] by simp
    next
      case None
      have "scope < used h1" using g1 a by (simp add: grows_def)
      then have "grows h1 scope (concat (map declaredIdents stmts)) (snd (buildLoop h1 scope stmts))"
        using "20.IH"(2) [OF bs [symmetric] None] by simp
      from grows_trans [OF g1 this] show ?thesis using bs None by simp
    qed
  qed
qed (simp_all add: grows_refl buildInScope.simps)

section \<open>The root scope\<close>

lemma builtins_defined:
  "\<exists>h1. defineBuiltins (fst (NewScope empty_heap None)) 0 builtinTypes = Inr h1 \<and> used h1 = 1
      \<and> Parent (cells h1 0) = None
      \<and> (\<forall>n. Symbols (cells h1 0) n = (if n \<in> set builtinTypes then Some (builtinSymbol n) else None))"
  by (simp add: builtinTypes_def NewScope_def empty_heap_def Define_def builtinSymbol_def)

lemma BuildSymbols_root:
  "\<exists>h. BuildSymbols stmts = Inr (h, 0) \<and> Parent (cells h 0) = None
     \<and> (\<forall>t\<in>set builtinTypes. Symbols (cells h 0) t = Some (builtinSymbol t))
     \<and> (\<forall>n s. Symbols (cells h 0) n = Some s \<longrightarrow>
           n \<in> set builtinTypes \<and> s = builtinSymbol n
           \<or> n \<notin> set builtinTypes \<and> Name s = n \<and>
              (\<exists>d\<in>set (concat (map declaredIdents stmts)). Ident s = Some d \<and> Value d = n))"
proof -
  obtain h1 where h1: "defineBuiltins (fst (NewScope empty_heap None)) 0 builtinTypes = Inr h1"
    "used h1 = 1" "Parent (cells h1 0) = None"
    "\<And>n. Symbols (cells h1 0) n = (if n \<in> set builtinTypes then Some (builtinSymbol n) else None)"
    using builtins_defined by blast
  let ?h = "buildInScope h1 0 stmts"
  have g: "grows h1 0 (concat (map declaredIdents stmts)) ?h"
    using build_grows(3) [of 0 h1 stmts] h1(2) by simp
  have b: "BuildSymbols stmts = Inr (?h, 0)"
  proof -
    have "used empty_heap = 0" by (simp add: empty_heap_def)
    then show ?thesis by (simp add: BuildSymbols_def h1(1))
  qed
  have p: "Parent (cells ?h 0) = None" using g h1(3) by (simp add: grows_def)
  have t: "\<forall>t\<in>set builtinTypes. Symbols (cells ?h 0) t = Some (builtinSymbol t)"
    using g h1(4) by (simp add: grows_def)
  have n: "\<forall>n s. Symbols (cells ?h 0) n = Some s \<longrightarrow>
           n \<in> set builtinTypes \<and> s = builtinSymbol n
           \<or> n \<notin> set builtinTypes \<and> Name s = n \<and>
              (\<exists>d\<in>set (concat (map declaredIdents stmts)). Ident s = Some d \<and> Value d = n)"
  proof (intro allI impI)
    fix n s assume s: "Symbols (cells ?h 0) n = Some s"
    show "n \<in> set builtinTypes \<and> s = builtinSymbol n
           \<or> n \<notin> set builtinTypes \<and> Name s = n \<and>
              (\<exists>d\<in>set (concat (map declaredIdents stmts)). Ident s = Some d \<and> Value d = n)"
    proof (cases "n \<in> set builtinTypes")
      case True
      then have "Symbols (cells ?h 0) n = Some (builtinSymbol n)" using t by blast
      with s True show ?thesis by simp
    next
      case False
      then have "Symbols (cells h1 0) n = None" using h1(4) by simp
      with g s have "Name s = n \<and> (\<exists>d\<in>set (concat (map declaredIdents stmts)). Ident s = Some d \<and> Value d = n)"
        unfolding grows_def by fastforce
      with False show ?thesis by simp
    qed
  qed
  from b p t n show ?thesis by blast
qed

lemma Resolve_root: "Parent (cells h a) = None \<Longrightarrow> Resolve h (Some a) name = Some (Symbols (cells h a) name)"
  by (subst Resolve.simps) (simp add: Resolve.simps split: option.splits)

lemma builtHeap_root:
  "BuildSymbols stmts = Inr (builtHeap stmts, 0)"
  "Parent (cells (builtHeap stmts) 0) = None"
  "t \<in> set builtinTypes \<Longrightarrow> Symbols (cells (builtHeap stmts) 0) t = Some (builtinSymbol t)"
  "Symbols (cells (builtHeap stmts) 0) n = Some s \<Longrightarrow>
     n \<in> set builtinTypes \<and> s = builtinSymbol n
     \<or> n \<notin> set builtinTypes \<and> Name s = n \<and>
        (\<exists>d\<in>set (concat (map declaredIdents stmts)). Ident s = Some d \<and> Value d = n)"
proof -
  obtain h where h: "BuildSymbols stmts = Inr (h, 0)" "Parent (cells h 0) = None"
     "\<forall>t\<in>set builtinTypes. Symbols (cells h 0) t = Some (builtinSymbol t)"
     "\<forall>n s. Symbols (cells h 0) n = Some s \<longrightarrow>
           n \<in> set builtinTypes \<and> s = builtinSymbol n
           \<or> n \<notin> set builtinTypes \<and> Name s = n \<and>
              (\<exists>d\<in>set (concat (map declaredIdents stmts)). Ident s = Some d \<and> Value d = n)"
    using BuildSymbols_root [of stmts] by blast
  have e: "builtHeap stmts = h" by (simp add: builtHeap_def h(1))
  show "BuildSymbols stmts = Inr (builtHeap stmts, 0)" using h(1) e by simp
  show "Parent (cells (builtHeap stmts) 0) = None" using h(2) e by simp
  show "t \<in> set builtinTypes \<Longrightarrow> Symbols (cells (builtHeap stmts) 0) t = Some (builtinSymbol t)"
    using h(3) e by simp
  show "Symbols (cells (builtHeap stmts) 0) n = Some s \<Longrightarrow>
     n \<in> set builtinTypes \<and> s = builtinSymbol n
     \<or> n \<notin> set builtinTypes \<and> Name s = n \<and>
        (\<exists>d\<in>set (concat (map declaredIdents stmts)). Ident s = Some d \<and> Value d = n)"
    using h(4) e by blast
qed

lemma Define_bound:
  "Symbols (cells h a) (Name symb) = Some s \<Longrightarrow> Define h a symb = Inl (Redeclaration (Name symb))"
  by (auto simp: Define_def)

text \<open>
  Claim C10. For every statement sequence, \<open>BuildSymbols\<close> returns a root scope in
  which each of the names \<open>int\<close>, \<open>float\<close>, \<open>string\<close>, \<open>bool\<close> and \<open>arr\<close> is bound
  to its type-kind symbol, whatever the statements declare; defining any symbol of
  such a name in the root scope is refused as a redeclaration.
\<close>

theorem builtin_types_in_root:
  "BuildSymbols stmts = Inr (builtHeap stmts, 0)
   \<and> set builtinTypes = {''int'', ''float'', ''string'', ''bool'', ''arr''}
   \<and> (\<forall>t\<in>set builtinTypes.
        Symbols (cells (builtHeap stmts) 0) t
          = Some \<lparr>Kind = SymType, Name = t, Ident = None, Type = NilType, Value_s = NilExpr\<rparr>
        \<and> (\<forall>symb. Name symb = t \<longrightarrow>
              Define (builtHeap stmts) 0 symb = Inl (Redeclaration t)))"
proof -
  have "\<forall>t\<in>set builtinTypes.
        Symbols (cells (builtHeap stmts) 0) t
          = Some \<lparr>Kind = SymType, Name = t, Ident = None, Type = NilType, Value_s = NilExpr\<rparr>
        \<and> (\<forall>symb. Name symb = t \<longrightarrow>
              Define (builtHeap stmts) 0 symb = Inl (Redeclaration t))"
  proof (intro ballI conjI allI impI)
    fix t assume t: "t \<in> set builtinTypes"
    show b: "Symbols (cells (builtHeap stmts) 0) t
          = Some \<lparr>Kind = SymType, Name = t, Ident = None, Type = NilType, Value_s = NilExpr\<rparr>"
      using builtHeap_root(3) [OF t] by (simp add: builtinSymbol_def)
    fix symb :: Symbol assume "Name symb = t"
    then show "Define (builtHeap stmts) 0 symb = Inl (Redeclaration t)"
      using Define_bound [of "builtHeap stmts" 0 symb] b by simp
  qed
  moreover have "set builtinTypes = {''int'', ''float'', ''string'', ''bool'', ''arr''}"
    by (simp add: builtinTypes_def)
  ultimately show ?thesis using builtHeap_root(1) by blast
qed

theorem builtin_types_in_root_witness:
  "''int'' \<in> set builtinTypes
   \<and> Symbols (cells (builtHeap redefinesInt) 0) ''int''
       = Some \<lparr>Kind = SymType, Name = ''int'', Ident = None, Type = NilType, Value_s = NilExpr\<rparr>
   \<and> Define (builtHeap redefinesInt) 0
        \<lparr>Kind = SymVar, Name = ''int'', Ident = Some (identAt 1 8 ''int''),
         Type = IdentType zeroToken ''string'', Value_s = NilExpr\<rparr>
       = Inl (Redeclaration ''int'')"
  using builtin_types_in_root [of redefinesInt] by simp

section \<open>The handlers on the root scope\<close>

lemmas walk_eval = posInsideTok_def int64_def len_def orElse_def walkIdentifier_def walkType_def identAt_def
lemmas build_eval = BuildSymbols_def buildInScope.simps define1_def Define_def NewScope_def
  empty_heap_def builtinTypes_def builtHeap_def

lemma handleHover_found:
  assumes "documents uri = Some text" "text \<noteq> []"
    and "findIdentAt (parse text) pos = Inr (Some ident)"
  shows "handleHover parse documents reqID uri pos =
     (case Symbols (cells (builtHeap (parse text)) 0) (Value ident) of
        None \<Rightarrow> sendResponse reqID Null
      | Some symb \<Rightarrow>
          sendResponse reqID (HoverResult (hoverFromSymbol
            (if Type symb = NilType \<and> Value_s symb \<noteq> NilExpr
                \<and> inferExprType (resolverOf (builtHeap (parse text)) (Some 0)) (Value_s symb) \<noteq> NilType
             then symb\<lparr>Type := inferExprType (resolverOf (builtHeap (parse text)) (Some 0)) (Value_s symb)\<rparr>
             else symb))))"
  using assms
  by (simp add: handleHover_def builtHeap_root(1) Resolve_root [OF builtHeap_root(2)] Let_def
        split: option.splits)

lemma handleDefinition_found:
  assumes "documents uri = Some text" "text \<noteq> []"
    and "findIdentAt (parse text) pos = Inr (Some ident)"
  shows "handleDefinition parse Pos documents reqID uri pos =
     (case Symbols (cells (builtHeap (parse text)) 0) (Value ident) of
        None \<Rightarrow> NoResponse
      | Some symb \<Rightarrow>
          (case Ident symb of
             None \<Rightarrow> Crash NilDereference
           | Some d \<Rightarrow>
               sendResponse reqID
                 (LocationResult
                    \<lparr>URI = uri,
                     Range_l =
                       \<lparr>Start = \<lparr>Line_p = int64 (fst (Pos d) - 1),
                                 Character = int64 (snd (Pos d) - 1)\<rparr>,
                        End = \<lparr>Line_p = int64 (fst (Pos d) - 1),
                               Character = int64 (int64 (snd (Pos d) - 1) + len (Value ident))\<rparr>\<rparr>\<rparr>)))"
  using assms
  by (simp add: handleDefinition_def builtHeap_root(1) Resolve_root [OF builtHeap_root(2)] Let_def
        split: option.splits)

lemma root_unbound:
  assumes "name \<notin> set builtinTypes" "name \<notin> declaredNames stmts"
  shows "Symbols (cells (builtHeap stmts) 0) name = None"
proof (cases "Symbols (cells (builtHeap stmts) 0) name")
  case None
  then show ?thesis .
next
  case (Some s)
  from builtHeap_root(4) [OF Some] assms(1)
  obtain d where "d \<in> set (concat (map declaredIdents stmts))" "Value d = name"
    by blast
  then have "name \<in> declaredNames stmts"
    unfolding declaredNames_def by blast
  with assms(2) show ?thesis by simp
qed

text \<open>
  \<open>BuildSymbols\<close> returns the root scope, which has no parent (and a scope has no
  link to its children), so resolving a name from it looks at the root's own
  bindings only; these are the built-in type names and names declared by the
  top-level statements. With \<open>handleHover_found\<close> and \<open>handleDefinition_found\<close> this
  gives the outcome of both handlers from the root's binding of the located name.
\<close>

lemma root_scope_resolution:
  "BuildSymbols stmts = Inr (builtHeap stmts, 0)
   \<and> Parent (cells (builtHeap stmts) 0) = None
   \<and> Resolve (builtHeap stmts) (Some 0) name = Some (Symbols (cells (builtHeap stmts) 0) name)
   \<and> (name \<notin> set builtinTypes \<and> name \<notin> declaredNames stmts \<longrightarrow>
        Resolve (builtHeap stmts) (Some 0) name = Some None)"
proof -
  have r: "Resolve (builtHeap stmts) (Some 0) name = Some (Symbols (cells (builtHeap stmts) 0) name)"
    by (rule Resolve_root [OF builtHeap_root(2)])
  have u: "name \<notin> set builtinTypes \<and> name \<notin> declaredNames stmts \<longrightarrow>
        Resolve (builtHeap stmts) (Some 0) name = Some None"
    unfolding r using root_unbound [of name stmts] by simp
  from builtHeap_root(1,2) r u show ?thesis by blast
qed

text \<open>
  A name declared only in a function body gives a null hover and no definition
  response; with a top-level \<open>egg x string\<close> before the function, hovering over the
  use of the inner \<open>x\<close> describes the outer one.
\<close>

lemma root_scope_resolution_examples:
  "handleHover (parseTo nestedOnly) oneDocument (Some 1) ''file:///a.ayla''
      \<lparr>Line_p = 2, Character = 2\<rparr> = Response 1 Null
   \<and> handleDefinition (parseTo nestedOnly) tokenPos oneDocument (Some 1) ''file:///a.ayla''
      \<lparr>Line_p = 2, Character = 2\<rparr> = NoResponse
   \<and> handleHover (parseTo shadowed) oneDocument (Some 1) ''file:///a.ayla''
      \<lparr>Line_p = 3, Character = 2\<rparr> = Response 1 (HoverResult (fence ''egg x string''))"
proof -
  have d: "oneDocument ''file:///a.ayla'' = Some ''source text''" "''source text'' \<noteq> []"
    by (simp_all add: oneDocument_def)
  have f: "findIdentAt (parseTo nestedOnly ''source text'') \<lparr>Line_p = 2, Character = 2\<rparr>
             = Inr (Some (identAt 3 4 ''x''))"
    by (simp add: nestedOnly_def parseTo_def walk_eval)
  have u: "Symbols (cells (builtHeap (parseTo nestedOnly ''source text'')) 0)
             (Value (identAt 3 4 ''x'')) = None"
    by (rule root_unbound)
       (simp_all add: builtinTypes_def declaredNames_def nestedOnly_def parseTo_def identAt_def)
  have g: "findIdentAt (parseTo shadowed ''source text'') \<lparr>Line_p = 3, Character = 2\<rparr>
             = Inr (Some (identAt 4 4 ''x''))"
    by (simp add: shadowed_def parseTo_def walk_eval)
  have s: "Symbols (cells (builtHeap (parseTo shadowed ''source text'')) 0)
             (Value (identAt 4 4 ''x''))
     = Some \<lparr>Kind = SymVar, Name = ''x'', Ident = Some (identAt 1 6 ''x''),
             Type = IdentType zeroToken ''string'', Value_s = NilExpr\<rparr>"
    by (simp add: shadowed_def parseTo_def build_eval identAt_def intType_def)
  have a: "handleHover (parseTo nestedOnly) oneDocument (Some 1) ''file:///a.ayla''
      \<lparr>Line_p = 2, Character = 2\<rparr> = Response 1 Null"
    unfolding handleHover_found [of oneDocument _ "''source text''" "parseTo nestedOnly", OF d f] u
    by (simp add: sendResponse_def)
  have b: "handleDefinition (parseTo nestedOnly) tokenPos oneDocument (Some 1) ''file:///a.ayla''
      \<lparr>Line_p = 2, Character = 2\<rparr> = NoResponse"
    unfolding handleDefinition_found [of oneDocument _ "''source text''" "parseTo nestedOnly", OF d f] u
    by simp
  have c: "handleHover (parseTo shadowed) oneDocument (Some 1) ''file:///a.ayla''
      \<lparr>Line_p = 3, Character = 2\<rparr> = Response 1 (HoverResult (fence ''egg x string''))"
    unfolding handleHover_found [of oneDocument _ "''source text''" "parseTo shadowed", OF d g] s
    by (simp add: sendResponse_def hoverFromSymbol_def)
  from a b c show ?thesis by blast
qed

text \<open>
  Claim C2. The located identifier is resolved against the root scope only: in a
  function whose body declares and uses a variable named \<open>arr\<close>, the use resolves to
  the built-in type symbol \<open>arr\<close> of the root, and the hover request describes that
  outer symbol. The definition request on the same identifier does not answer from
  the outer symbol: the built-in symbol has no declaring identifier, the handler
  dereferences it all the same, and the request ends in a nil dereference.
\<close>

theorem definition_of_builtin_name_crashes:
  "findIdentAt localArr \<lparr>Line_p = 2, Character = 3\<rparr> = Inr (Some (identAt 3 6 ''arr''))
   \<and> Symbols (cells (builtHeap localArr) 0) ''arr''
       = Some \<lparr>Kind = SymType, Name = ''arr'', Ident = None, Type = NilType, Value_s = NilExpr\<rparr>
   \<and> handleHover (parseTo localArr) oneDocument (Some 1) ''file:///a.ayla''
        \<lparr>Line_p = 2, Character = 3\<rparr> = Response 1 (HoverResult (fence ''type arr''))
   \<and> handleDefinition (parseTo localArr) tokenPos oneDocument (Some 1) ''file:///a.ayla''
        \<lparr>Line_p = 2, Character = 3\<rparr> = Crash NilDereference"
proof -
  have d: "oneDocument ''file:///a.ayla'' = Some ''source text''" "''source text'' \<noteq> []"
    by (simp_all add: oneDocument_def)
  have f: "findIdentAt (parseTo localArr ''source text'') \<lparr>Line_p = 2, Character = 3\<rparr>
             = Inr (Some (identAt 3 6 ''arr''))"
    by (simp add: localArr_def parseTo_def walk_eval)
  have s: "Symbols (cells (builtHeap (parseTo localArr ''source text'')) 0)
             (Value (identAt 3 6 ''arr''))
     = Some \<lparr>Kind = SymType, Name = ''arr'', Ident = None, Type = NilType, Value_s = NilExpr\<rparr>"
    by (simp add: localArr_def parseTo_def build_eval identAt_def)
  have h: "handleHover (parseTo localArr) oneDocument (Some 1) ''file:///a.ayla''
        \<lparr>Line_p = 2, Character = 3\<rparr> = Response 1 (HoverResult (fence ''type arr''))"
    unfolding handleHover_found [of oneDocument _ "''source text''" "parseTo localArr", OF d f] s
    by (simp add: sendResponse_def hoverFromSymbol_def)
  have c: "handleDefinition (parseTo localArr) tokenPos oneDocument (Some 1) ''file:///a.ayla''
        \<lparr>Line_p = 2, Character = 3\<rparr> = Crash NilDereference"
    unfolding handleDefinition_found [of oneDocument _ "''source text''" "parseTo localArr", OF d f] s
    by simp
  from f s h c show ?thesis by (simp add: parseTo_def identAt_def)
qed

section \<open>Queries on an unresolved identifier\<close>

text \<open>
  Claim C5. On the program \<open>foo\<close>, whose identifier resolves to no symbol, a
  definition request with id 1 at the identifier returns without writing any
  response, while the hover request at the same place answers with a null result.
\<close>

theorem definition_unresolved_no_response:
  "handleDefinition (parseTo unresolvedUse) tokenPos oneDocument (Some 1) ''file:///a.ayla''
      \<lparr>Line_p = 0, Character = 0\<rparr> = NoResponse
   \<and> handleHover (parseTo unresolvedUse) oneDocument (Some 1) ''file:///a.ayla''
      \<lparr>Line_p = 0, Character = 0\<rparr> = Response 1 Null"
proof -
  have f: "findIdentAt (parseTo unresolvedUse ''source text'') \<lparr>Line_p = 0, Character = 0\<rparr>
             = Inr (Some (identAt 1 4 ''foo''))"
    by (simp add: unresolvedUse_def parseTo_def walk_eval)
  have d: "oneDocument ''file:///a.ayla'' = Some ''source text''" "''source text'' \<noteq> []"
    by (simp_all add: oneDocument_def)
  have u: "Symbols (cells (builtHeap (parseTo unresolvedUse ''source text'')) 0)
             (Value (identAt 1 4 ''foo'')) = None"
    by (rule root_unbound)
       (simp_all add: builtinTypes_def declaredNames_def unresolvedUse_def parseTo_def identAt_def)
  show ?thesis
    unfolding handleDefinition_found [of oneDocument _ "''source text''" "parseTo unresolvedUse", OF d f]
      handleHover_found [of oneDocument _ "''source text''" "parseTo unresolvedUse", OF d f] u
    by (simp add: sendResponse_def)
qed

section \<open>Duplicate declarations\<close>

lemma buildLoop_append:
  "buildLoop h a (xs @ ys) =
     (case buildLoop h a xs of (Some e, h') \<Rightarrow> (Some e, h') | (None, h') \<Rightarrow> buildLoop h' a ys)"
proof (induction xs arbitrary: h)
  case Nil
  show ?case by simp
next
  case (Cons x xs)
  show ?case
  proof (cases "buildStmt h a x")
    case (Pair r h1)
    then show ?thesis using Cons.IH [of h1] by (cases r) simp_all
  qed
qed

lemma Define_dup:
  "Name symb \<in> dom (Symbols (cells h a)) \<Longrightarrow> Define h a symb = Inl (Redeclaration (Name symb))"
  by (simp add: Define_def)

lemma abort_skips_rest:
  assumes "buildLoop h a pre = (None, h1)" "buildStmt h1 a stmt = (Some e, h2)"
  shows "buildInScope h a (pre @ stmt # post) = h2"
  using assms by (simp add: buildInScope.simps buildLoop_append)

lemma func_panic_without_body:
  "fst (buildStmt h a (FuncStatement name params body)) = fst (buildStmt h a (FuncStatement name params []))"
  by (auto split: option.splits sum.splits prod.splits)

text \<open>
  Claim C1, as amended. Defining a name that the scope already binds panics with a
  redeclaration. The panic ends the invocation of \<open>buildInScope\<close> in which it is
  raised: the statements after the panicking one in that sequence are skipped and
  the store is as it was at the panic, so the bindings made before stay. A panic
  never leaves the invocation: building a while, if or for statement always
  completes, a function statement can only panic on its own name or parameters,
  whatever its body, and \<open>BuildSymbols\<close> always returns the root scope to the query,
  which answers from it: a located identifier that the root binds gets its hover.
\<close>

theorem duplicate_aborts_one_invocation:
  "(Name symb \<in> dom (Symbols (cells h a)) \<longrightarrow>
      Define h a symb = Inl (Redeclaration (Name symb)))
   \<and> (buildLoop h a pre = (None, h1) \<and> buildStmt h1 a stmt = (Some e, h2) \<longrightarrow>
        buildInScope h a (pre @ stmt # post) = h2)
   \<and> (a < used h \<longrightarrow>
        (\<forall>n s. Symbols (cells h a) n = Some s \<longrightarrow>
                Symbols (cells (buildInScope h a stmts) a) n = Some s))
   \<and> fst (buildStmt h a (WhileStatement cond body)) = None
   \<and> fst (buildStmt h a (IfStatement cond cons alt)) = None
   \<and> fst (buildStmt h a (ForStatement init cond post' body)) = None
   \<and> fst (buildStmt h a (FuncStatement name params body))
       = fst (buildStmt h a (FuncStatement name params []))
   \<and> BuildSymbols stmts = Inr (builtHeap stmts, 0)
   \<and> (documents uri = Some text \<and> text \<noteq> [] \<and>
      findIdentAt (parse text) pos = Inr (Some ident) \<and>
      Symbols (cells (builtHeap (parse text)) 0) (Value ident) = Some bound \<longrightarrow>
        (\<exists>shown. handleHover parse documents reqID uri pos
                   = sendResponse reqID (HoverResult (hoverFromSymbol shown))
                 \<and> Kind shown = Kind bound \<and> Name shown = Name bound))"
proof -
  have q: "documents uri = Some text \<and> text \<noteq> [] \<and>
      findIdentAt (parse text) pos = Inr (Some ident) \<and>
      Symbols (cells (builtHeap (parse text)) 0) (Value ident) = Some bound \<longrightarrow>
        (\<exists>shown. handleHover parse documents reqID uri pos
                   = sendResponse reqID (HoverResult (hoverFromSymbol shown))
                 \<and> Kind shown = Kind bound \<and> Name shown = Name bound)"
  proof (intro impI, elim conjE)
    assume a: "documents uri = Some text" "text \<noteq> []"
      "findIdentAt (parse text) pos = Inr (Some ident)"
      "Symbols (cells (builtHeap (parse text)) 0) (Value ident) = Some bound"
    show "\<exists>shown. handleHover parse documents reqID uri pos
                   = sendResponse reqID (HoverResult (hoverFromSymbol shown))
                 \<and> Kind shown = Kind bound \<and> Name shown = Name bound"
      unfolding handleHover_found [of documents uri "text" parse pos ident, OF a(1,2,3)]
      using a(4) by auto
  qed
  have k: "a < used h \<longrightarrow>
        (\<forall>n s. Symbols (cells h a) n = Some s \<longrightarrow>
                Symbols (cells (buildInScope h a stmts) a) n = Some s)"
    using build_grows(3) [of a h stmts] by (simp add: grows_def)
  have i: "fst (buildStmt h a (IfStatement cond cons alt)) = None"
    by (simp add: Let_def split: option.splits)
  have r: "(Name symb \<in> dom (Symbols (cells h a)) \<longrightarrow>
      Define h a symb = Inl (Redeclaration (Name symb)))
   \<and> (buildLoop h a pre = (None, h1) \<and> buildStmt h1 a stmt = (Some e, h2) \<longrightarrow>
        buildInScope h a (pre @ stmt # post) = h2)
   \<and> fst (buildStmt h a (WhileStatement cond body)) = None
   \<and> fst (buildStmt h a (ForStatement init cond post' body)) = None
   \<and> fst (buildStmt h a (FuncStatement name params body))
       = fst (buildStmt h a (FuncStatement name params []))
   \<and> BuildSymbols stmts = Inr (builtHeap stmts, 0)"
    using Define_dup [of symb h a] abort_skips_rest [of h a pre h1 stmt e h2 post]
      func_panic_without_body [of h a name params body] builtHeap_root(1) [of stmts]
    by (simp add: Let_def)
  from r k i q show ?thesis by blast
qed


text \<open>
  Claim C1 as stated fails: the body of \<open>f\<close> declares \<open>x\<close> twice, yet \<open>y\<close>, declared
  after the function, is defined in the root scope and hovering over its use gives
  its description.
\<close>

theorem duplicate_blanks_query_counterexample:
  "fst (buildLoop (fst (NewScope empty_heap None)) 0
          [VarStatement (Some (identAt 2 8 ''x'')) intType NilExpr,
           VarStatement (Some (identAt 3 8 ''x'')) intType NilExpr])
     = Some (Redeclaration ''x'')
   \<and> Symbols (cells (builtHeap duplicateInBody) 0) ''y''
       = Some \<lparr>Kind = SymVar, Name = ''y'', Ident = Some (identAt 5 6 ''y''),
               Type = intType, Value_s = NilExpr\<rparr>
   \<and> handleHover (parseTo duplicateInBody) oneDocument (Some 1) ''file:///a.ayla''
        \<lparr>Line_p = 5, Character = 0\<rparr>
       = Response 1 (HoverResult (fence ''egg y int''))"
proof -
  have b: "fst (buildLoop (fst (NewScope empty_heap None)) 0
          [VarStatement (Some (identAt 2 8 ''x'')) intType NilExpr,
           VarStatement (Some (identAt 3 8 ''x'')) intType NilExpr])
     = Some (Redeclaration ''x'')"
    by (simp add: build_eval identAt_def)
  have y: "Symbols (cells (builtHeap duplicateInBody) 0) ''y''
       = Some \<lparr>Kind = SymVar, Name = ''y'', Ident = Some (identAt 5 6 ''y''),
               Type = intType, Value_s = NilExpr\<rparr>"
    by (simp add: duplicateInBody_def build_eval identAt_def)
  have f: "findIdentAt (parseTo duplicateInBody ''source text'') \<lparr>Line_p = 5, Character = 0\<rparr>
             = Inr (Some (identAt 6 2 ''y''))"
    by (simp add: duplicateInBody_def parseTo_def walk_eval)
  have d: "oneDocument ''file:///a.ayla'' = Some ''source text''" "''source text'' \<noteq> []"
    by (simp_all add: oneDocument_def)
  have v: "Value (identAt 6 2 ''y'') = ''y''" by (simp add: identAt_def)
  have h: "handleHover (parseTo duplicateInBody) oneDocument (Some 1) ''file:///a.ayla''
        \<lparr>Line_p = 5, Character = 0\<rparr>
       = Response 1 (HoverResult (fence ''egg y int''))"
    unfolding handleHover_found [of oneDocument _ "''source text''" "parseTo duplicateInBody", OF d f]
    by (simp add: v parseTo_def y sendResponse_def hoverFromSymbol_def intType_def)
  from b y h show ?thesis by blast
qed

theorem duplicate_aborts_one_invocation_witness:
  "buildInScope (fst (NewScope empty_heap None)) 0
      ([VarStatement (Some (identAt 1 6 ''x'')) intType NilExpr]
       @ VarStatement (Some (identAt 2 6 ''x'')) (IdentType zeroToken ''string'') NilExpr
       # [VarStatement (Some (identAt 3 6 ''y'')) intType NilExpr])
     = snd (buildLoop (fst (NewScope empty_heap None)) 0
              [VarStatement (Some (identAt 1 6 ''x'')) intType NilExpr])
   \<and> Define (snd (buildLoop (fst (NewScope empty_heap None)) 0
              [VarStatement (Some (identAt 1 6 ''x'')) intType NilExpr])) 0
         \<lparr>Kind = SymVar, Name = ''x'', Ident = Some (identAt 2 6 ''x''),
          Type = IdentType zeroToken ''string'', Value_s = NilExpr\<rparr>
       = Inl (Redeclaration ''x'')
   \<and> Symbols (cells (buildInScope (snd (buildLoop (fst (NewScope empty_heap None)) 0
              [VarStatement (Some (identAt 1 6 ''x'')) intType NilExpr])) 0
           [VarStatement (Some (identAt 2 6 ''x'')) (IdentType zeroToken ''string'') NilExpr,
            VarStatement (Some (identAt 3 6 ''y'')) intType NilExpr]) 0) ''x''
       = Some \<lparr>Kind = SymVar, Name = ''x'', Ident = Some (identAt 1 6 ''x''),
               Type = intType, Value_s = NilExpr\<rparr>
   \<and> (\<exists>shown. handleHover (parseTo duplicateInBody) oneDocument (Some 1) ''file:///a.ayla''
                  \<lparr>Line_p = 5, Character = 0\<rparr>
                = Response 1 (HoverResult (hoverFromSymbol shown))
              \<and> Kind shown = SymVar \<and> Name shown = ''y'')"
proof -
  have y: "Symbols (cells (builtHeap (parseTo duplicateInBody ''source text'')) 0)
             (Value (identAt 6 2 ''y''))
       = Some \<lparr>Kind = SymVar, Name = ''y'', Ident = Some (identAt 5 6 ''y''),
               Type = intType, Value_s = NilExpr\<rparr>"
    by (simp add: duplicateInBody_def parseTo_def build_eval identAt_def)
  have f: "findIdentAt (parseTo duplicateInBody ''source text'') \<lparr>Line_p = 5, Character = 0\<rparr>
             = Inr (Some (identAt 6 2 ''y''))"
    by (simp add: duplicateInBody_def parseTo_def walk_eval)
  have d: "oneDocument ''file:///a.ayla'' = Some ''source text''" "''source text'' \<noteq> []"
    by (simp_all add: oneDocument_def)
  have hv: "\<exists>shown. handleHover (parseTo duplicateInBody) oneDocument (Some 1) ''file:///a.ayla''
                  \<lparr>Line_p = 5, Character = 0\<rparr>
                = Response 1 (HoverResult (hoverFromSymbol shown))
              \<and> Kind shown = SymVar \<and> Name shown = ''y''"
    using duplicate_aborts_one_invocation [where documents = oneDocument
        and uri = "''file:///a.ayla''" and ?text = "''source text''"
        and parse = "parseTo duplicateInBody" and pos = "\<lparr>Line_p = 5, Character = 0\<rparr>"
        and ident = "identAt 6 2 ''y''" and reqID = "Some 1"
        and bound = "\<lparr>Kind = SymVar, Name = ''y'', Ident = Some (identAt 5 6 ''y''),
               Type = intType, Value_s = NilExpr\<rparr>"] d f y
    by (simp add: sendResponse_def)
  let ?h0 = "fst (NewScope empty_heap None)"
  let ?x1 = "VarStatement (Some (identAt 1 6 ''x'')) intType NilExpr"
  let ?x2 = "VarStatement (Some (identAt 2 6 ''x'')) (IdentType zeroToken ''string'') NilExpr"
  let ?h1 = "snd (buildLoop ?h0 0 [?x1])"
  let ?s2 = "\<lparr>Kind = SymVar, Name = ''x'', Ident = Some (identAt 2 6 ''x''),
          Type = IdentType zeroToken ''string'', Value_s = NilExpr\<rparr>"
  have p1: "buildLoop ?h0 0 [?x1] = (None, ?h1)"
    by (simp add: build_eval identAt_def)
  have dm: "Name ?s2 \<in> dom (Symbols (cells ?h1 0))"
    by (simp add: build_eval identAt_def)
  have p2: "buildStmt ?h1 0 ?x2 = (Some (Redeclaration ''x''), ?h1)"
    by (simp add: build_eval identAt_def)
  have u1: "0 < used ?h1"
    by (simp add: build_eval identAt_def)
  have b1: "Symbols (cells ?h1 0) ''x''
       = Some \<lparr>Kind = SymVar, Name = ''x'', Ident = Some (identAt 1 6 ''x''),
               Type = intType, Value_s = NilExpr\<rparr>"
    by (simp add: build_eval identAt_def)
  show ?thesis
    using duplicate_aborts_one_invocation [where h = ?h0 and a = 0 and pre = "[?x1]"
        and ?h1.0 = ?h1 and stmt = ?x2 and e = "Redeclaration ''x''" and ?h2.0 = ?h1
        and post = "[VarStatement (Some (identAt 3 6 ''y'')) intType NilExpr]"]
      duplicate_aborts_one_invocation [where h = ?h1 and a = 0 and symb = ?s2
        and stmts = "[?x2, VarStatement (Some (identAt 3 6 ''y'')) intType NilExpr]"]
      p1 p2 dm u1 b1 hv
    by simp
qed

section \<open>The range of a definition\<close>




section \<open>Position lookup\<close>

lemma orElse_simps [simp]:
  "orElse (Inr None) k = k" "orElse (Inl e) k = Inl e" "orElse (Inr (Some i)) k = Inr (Some i)"
  "orElse r (Inr None) = r"
  by (auto simp: orElse_def split: sum.splits option.splits)

lemma orElse_assoc: "orElse (orElse a b) c = orElse a (orElse b c)"
  by (auto simp: orElse_def split: sum.splits option.splits)

lemma firstHit_append: "firstHit pos (xs @ ys) = orElse (firstHit pos xs) (firstHit pos ys)"
  by (induction pos xs rule: firstHit.induct) auto

lemma firstHit_Cons: "firstHit pos (n # ns) = orElse (walkIdentifier n pos) (firstHit pos ns)"
  by (cases n) (auto simp: walkIdentifier_def)

lemma walkNames_firstHit: "walkNames ns pos = firstHit pos (map Some ns)"
  by (induction ns) (auto simp: firstHit_Cons simp del: firstHit.simps(2,3))

lemma walkParams_None: "walkParams ps pos = Inr None"
  by (induction ps) (auto simp: walkParam_def)

lemma walkExpr_firstHit:
  "walkExpr e pos = firstHit pos (visitedExpr e)"
  "walkExprs es pos = firstHit pos (concat (map visitedExpr es))"
  by (induction e pos and es pos rule: walkExpr_walkExprs.induct)
     (auto simp: firstHit_append firstHit_Cons orElse_assoc simp del: firstHit.simps(2,3))

lemma walkForIdent_firstHit:
  "noTypeDecl s \<longrightarrow> walkForIdent s pos = firstHit pos (visitedStmt s)"
  "(\<forall>s\<in>set ss. noTypeDecl s) \<longrightarrow> walkStmts ss pos = firstHit pos (concat (map visitedStmt ss))"
proof (induction s pos and ss pos rule: walkForIdent_walkStmts.induct)
  case (13 cond cons alt pos)
  then show ?case
    by (cases alt)
       (auto simp: firstHit_append firstHit_Cons orElse_assoc walkExpr_firstHit simp del: firstHit.simps(2,3))
next
  case (14 init cond post body pos)
  then show ?case
    by (cases "init = NilStmt"; cases "post = NilStmt"; cases "cond = NilExpr")
       (auto simp: firstHit_append firstHit_Cons orElse_assoc walkExpr_firstHit simp del: firstHit.simps(2,3))
qed (auto simp: firstHit_append firstHit_Cons orElse_assoc walkExpr_firstHit walkNames_firstHit
       walkParams_None walkType_def simp del: firstHit.simps(2,3) split: option.splits)

lemma findIdentAt_walkStmts: "findIdentAt ss pos = walkStmts ss pos"
  by (induction ss) auto

lemma firstHit_Some:
  "firstHit pos vs = Inr (Some i) \<Longrightarrow> Some i \<in> set vs \<and> posInsideTok (NodeBase i) pos"
  by (induction pos vs rule: firstHit.induct) (auto split: if_splits)

lemma firstHit_none:
  "None \<notin> set vs \<Longrightarrow> \<forall>i. Some i \<in> set vs \<longrightarrow> \<not> posInsideTok (NodeBase i) pos \<Longrightarrow>
     firstHit pos vs = Inr None"
  by (induction pos vs rule: firstHit.induct) auto

lemma posInsideTok_span:
  assumes "is_int64 (Line tok - 1)" "is_int64 (Column tok - 1)"
    "is_int64 (Column tok - 1 - len (Literal tok))"
  shows "posInsideTok tok pos \<longleftrightarrow>
     Line_p pos = Line tok - 1 \<and>
     Column tok - 1 - len (Literal tok) \<le> Character pos \<and> Character pos < Column tok - 1"
  using assms by (auto simp: posInsideTok_def Let_def int64_id)


lemma firstHit_first:
  assumes "None \<notin> set pre" "\<forall>j. Some j \<in> set pre \<longrightarrow> \<not> posInsideTok (NodeBase j) pos"
    "posInsideTok (NodeBase i) pos"
  shows "firstHit pos (pre @ Some i # rest) = Inr (Some i)"
  using assms by (simp add: firstHit_append firstHit_none)

text \<open>
  The span convention and the search on programs without a type declaration. A
  token's span is \<open>[column - length, column)\<close> in one-based columns on its line:
  \<open>posInsideTok\<close> accepts exactly the zero-based positions of that line from
  \<open>column - 1 - length\<close> up to, not including, \<open>column - 1\<close>. For a statement sequence
  in which the traversal reaches no type declaration, \<open>findIdentAt\<close> is the linear
  search through the identifiers the walker visits, in traversal order.
\<close>

lemma lookup_without_type_declaration:
  "(is_int64 (Line tok - 1) \<and> is_int64 (Column tok - 1) \<and>
    is_int64 (Column tok - 1 - len (Literal tok)) \<longrightarrow>
      (posInsideTok tok pos \<longleftrightarrow>
         Line_p pos = Line tok - 1 \<and>
         Column tok - 1 - len (Literal tok) \<le> Character pos \<and> Character pos < Column tok - 1))
   \<and> ((\<forall>s\<in>set stmts. noTypeDecl s) \<longrightarrow>
        findIdentAt stmts pos = firstHit pos (concat (map visitedStmt stmts))
        \<and> (\<forall>i. findIdentAt stmts pos = Inr (Some i) \<longrightarrow>
              Some i \<in> set (concat (map visitedStmt stmts)) \<and> posInsideTok (NodeBase i) pos)
        \<and> (None \<notin> set (concat (map visitedStmt stmts)) \<and>
           (\<forall>i. Some i \<in> set (concat (map visitedStmt stmts)) \<longrightarrow>
                 \<not> posInsideTok (NodeBase i) pos) \<longrightarrow>
             findIdentAt stmts pos = Inr None)
        \<and> (\<forall>pre i rest.
              concat (map visitedStmt stmts) = pre @ Some i # rest \<and>
              posInsideTok (NodeBase i) pos \<and> None \<notin> set pre \<and>
              (\<forall>j. Some j \<in> set pre \<longrightarrow> \<not> posInsideTok (NodeBase j) pos) \<longrightarrow>
                findIdentAt stmts pos = Inr (Some i)))"
proof -
  have span: "is_int64 (Line tok - 1) \<and> is_int64 (Column tok - 1) \<and>
    is_int64 (Column tok - 1 - len (Literal tok)) \<longrightarrow>
      (posInsideTok tok pos \<longleftrightarrow>
         Line_p pos = Line tok - 1 \<and>
         Column tok - 1 - len (Literal tok) \<le> Character pos \<and> Character pos < Column tok - 1)"
    using posInsideTok_span [of tok pos] by blast
  have walk: "(\<forall>s\<in>set stmts. noTypeDecl s) \<longrightarrow>
        findIdentAt stmts pos = firstHit pos (concat (map visitedStmt stmts))
        \<and> (\<forall>i. findIdentAt stmts pos = Inr (Some i) \<longrightarrow>
              Some i \<in> set (concat (map visitedStmt stmts)) \<and> posInsideTok (NodeBase i) pos)
        \<and> (None \<notin> set (concat (map visitedStmt stmts)) \<and>
           (\<forall>i. Some i \<in> set (concat (map visitedStmt stmts)) \<longrightarrow>
                 \<not> posInsideTok (NodeBase i) pos) \<longrightarrow>
             findIdentAt stmts pos = Inr None)
        \<and> (\<forall>pre i rest.
              concat (map visitedStmt stmts) = pre @ Some i # rest \<and>
              posInsideTok (NodeBase i) pos \<and> None \<notin> set pre \<and>
              (\<forall>j. Some j \<in> set pre \<longrightarrow> \<not> posInsideTok (NodeBase j) pos) \<longrightarrow>
                findIdentAt stmts pos = Inr (Some i))"
  proof (intro impI)
    assume nt: "\<forall>s\<in>set stmts. noTypeDecl s"
    let ?vs = "concat (map visitedStmt stmts)"
    have e: "findIdentAt stmts pos = firstHit pos ?vs"
      using walkForIdent_firstHit(2) [of stmts pos] nt by (simp add: findIdentAt_walkStmts)
    have a: "\<forall>i. findIdentAt stmts pos = Inr (Some i) \<longrightarrow>
              Some i \<in> set ?vs \<and> posInsideTok (NodeBase i) pos"
      unfolding e using firstHit_Some by blast
    have b: "None \<notin> set ?vs \<and>
           (\<forall>i. Some i \<in> set ?vs \<longrightarrow> \<not> posInsideTok (NodeBase i) pos) \<longrightarrow>
             findIdentAt stmts pos = Inr None"
      unfolding e using firstHit_none by blast
    have c: "\<forall>pre i rest.
              ?vs = pre @ Some i # rest \<and>
              posInsideTok (NodeBase i) pos \<and> None \<notin> set pre \<and>
              (\<forall>j. Some j \<in> set pre \<longrightarrow> \<not> posInsideTok (NodeBase j) pos) \<longrightarrow>
                findIdentAt stmts pos = Inr (Some i)"
      unfolding e using firstHit_first by metis
    from e a b c show "findIdentAt stmts pos = firstHit pos ?vs
        \<and> (\<forall>i. findIdentAt stmts pos = Inr (Some i) \<longrightarrow>
              Some i \<in> set ?vs \<and> posInsideTok (NodeBase i) pos)
        \<and> (None \<notin> set ?vs \<and>
           (\<forall>i. Some i \<in> set ?vs \<longrightarrow> \<not> posInsideTok (NodeBase i) pos) \<longrightarrow>
             findIdentAt stmts pos = Inr None)
        \<and> (\<forall>pre i rest.
              ?vs = pre @ Some i # rest \<and>
              posInsideTok (NodeBase i) pos \<and> None \<notin> set pre \<and>
              (\<forall>j. Some j \<in> set pre \<longrightarrow> \<not> posInsideTok (NodeBase j) pos) \<longrightarrow>
                findIdentAt stmts pos = Inr (Some i))"
      by blast
  qed
  from span walk show ?thesis by blast
qed

text \<open>
  Claim C4. In \<open>type T int\<close> followed by a use of \<open>x\<close> on the next line, the position
  between \<open>type\<close> and \<open>T\<close> lies in the span of no token, yet the lookup returns an
  identifier, the synthetic one that the type declaration yields for every
  position, and the hover request there describes the type \<open>int\<close>; querying the
  exact span of \<open>x\<close> returns that synthetic identifier too, not \<open>x\<close>.
\<close>

theorem type_declaration_matches_every_position:
  "\<not> posInsideTok \<lparr>Line = 1, Column = 5, Literal = ''type''\<rparr> \<lparr>Line_p = 0, Character = 4\<rparr>
   \<and> \<not> posInsideTok (NodeBase (identAt 1 7 ''T'')) \<lparr>Line_p = 0, Character = 4\<rparr>
   \<and> \<not> posInsideTok \<lparr>Line = 1, Column = 11, Literal = ''int''\<rparr> \<lparr>Line_p = 0, Character = 4\<rparr>
   \<and> \<not> posInsideTok (NodeBase (identAt 2 2 ''x'')) \<lparr>Line_p = 0, Character = 4\<rparr>
   \<and> findIdentAt typeDecl \<lparr>Line_p = 0, Character = 4\<rparr>
     = Inr (Some \<lparr>NodeBase = \<lparr>Line = 1, Column = 5, Literal = ''type''\<rparr>, Value = ''int''\<rparr>)
   \<and> handleHover (parseTo typeDecl) oneDocument (Some 1) ''file:///a.ayla''
        \<lparr>Line_p = 0, Character = 4\<rparr> = Response 1 (HoverResult (fence ''type int''))
   \<and> posInsideTok (NodeBase (identAt 2 2 ''x'')) \<lparr>Line_p = 1, Character = 0\<rparr>
   \<and> findIdentAt typeDecl \<lparr>Line_p = 1, Character = 0\<rparr>
     = Inr (Some \<lparr>NodeBase = \<lparr>Line = 1, Column = 5, Literal = ''type''\<rparr>, Value = ''int''\<rparr>)"
proof -
  have d: "oneDocument ''file:///a.ayla'' = Some ''source text''" "''source text'' \<noteq> []"
    by (simp_all add: oneDocument_def)
  have f: "findIdentAt (parseTo typeDecl ''source text'') \<lparr>Line_p = 0, Character = 4\<rparr>
     = Inr (Some \<lparr>NodeBase = \<lparr>Line = 1, Column = 5, Literal = ''type''\<rparr>, Value = ''int''\<rparr>)"
    by (simp add: typeDecl_def parseTo_def walk_eval)
  have s: "Symbols (cells (builtHeap (parseTo typeDecl ''source text'')) 0)
             (Value \<lparr>NodeBase = \<lparr>Line = 1, Column = 5, Literal = ''type''\<rparr>, Value = ''int''\<rparr>)
     = Some \<lparr>Kind = SymType, Name = ''int'', Ident = None, Type = NilType, Value_s = NilExpr\<rparr>"
    using builtHeap_root(3) [of "''int''" "parseTo typeDecl ''source text''"]
    by (simp add: builtinTypes_def builtinSymbol_def)
  have h: "handleHover (parseTo typeDecl) oneDocument (Some 1) ''file:///a.ayla''
        \<lparr>Line_p = 0, Character = 4\<rparr> = Response 1 (HoverResult (fence ''type int''))"
    unfolding handleHover_found [of oneDocument _ "''source text''" "parseTo typeDecl", OF d f] s
    by (simp add: sendResponse_def hoverFromSymbol_def)
  have t: "\<not> posInsideTok \<lparr>Line = 1, Column = 5, Literal = ''type''\<rparr> \<lparr>Line_p = 0, Character = 4\<rparr>
   \<and> \<not> posInsideTok (NodeBase (identAt 1 7 ''T'')) \<lparr>Line_p = 0, Character = 4\<rparr>
   \<and> \<not> posInsideTok \<lparr>Line = 1, Column = 11, Literal = ''int''\<rparr> \<lparr>Line_p = 0, Character = 4\<rparr>
   \<and> \<not> posInsideTok (NodeBase (identAt 2 2 ''x'')) \<lparr>Line_p = 0, Character = 4\<rparr>
   \<and> posInsideTok (NodeBase (identAt 2 2 ''x'')) \<lparr>Line_p = 1, Character = 0\<rparr>"
    by (simp add: walk_eval)
  have g: "findIdentAt typeDecl \<lparr>Line_p = 1, Character = 0\<rparr>
     = Inr (Some \<lparr>NodeBase = \<lparr>Line = 1, Column = 5, Literal = ''type''\<rparr>, Value = ''int''\<rparr>)"
    by (simp add: typeDecl_def walk_eval)
  from f h t g show ?thesis by (simp add: parseTo_def)
qed

section \<open>The two column conventions\<close>

text \<open>
  The range a definition request returns for a declaring identifier \<open>d\<close> starts at
  column \<open>Column - 1\<close> of its line (\<open>handleDefinition_found\<close> with \<open>tokenPos\<close>), while
  \<open>posInsideTok\<close> takes that column for the end of the token: every position of the
  declaring token lies before the returned range.
\<close>

lemma tokenPos_range_after_token:
  assumes "is_int64 (Line (NodeBase d) - 1)" "is_int64 (Column (NodeBase d) - 1)"
    "is_int64 (Column (NodeBase d) - 1 - len (Literal (NodeBase d)))"
    and "posInsideTok (NodeBase d) p"
  shows "Line_p p = fst (tokenPos d) - 1 \<and> Character p < snd (tokenPos d) - 1"
  using assms posInsideTok_span [of "NodeBase d" p] by (simp add: tokenPos_def)

end
